theory Spec2Isabelle
  imports Main
begin

section \<open>Values of Auth.js\<close>

text \<open>
  The model covers the custom role assignment of \<^verbatim>\<open>src/Auth.js\<close> (the second,
  current version of the file): the module helpers, \<^verbatim>\<open>getSpacePointer\<close>,
  \<^verbatim>\<open>getUserRoles\<close>, \<^verbatim>\<open>_loadCustomRoles\<close>, \<^verbatim>\<open>_loadRoles\<close> and
  \<^verbatim>\<open>_getAllRolesNamesForRoleIds\<close>.

  A \<^verbatim>\<open>Parse.Error(code, message)\<close> is an \<open>error\<close>. A promise is represented by the way
  it settles: resolved with a value, rejected with an error, or never settled
  (\<open>Pending\<close>).
\<close>

datatype error = Parse_Error (code: nat) (message: string)

text \<open>\<^verbatim>\<open>Parse.Error.OPERATION_FORBIDDEN\<close> is declared by the Parse SDK (\<^verbatim>\<open>parse/node\<close>),
  where its value is 119.\<close>

definition OPERATION_FORBIDDEN :: nat where
  "OPERATION_FORBIDDEN = 119"

datatype 'a promise = Resolved 'a | Rejected error | Pending

text \<open>A pointer \<^verbatim>\<open>{ __type: 'Pointer', className, objectId }\<close>.\<close>

record pointer =
  ptr_className :: string
  ptr_objectId :: string

text \<open>A row of \<^verbatim>\<open>UBRoleDefinition\<close>: \<^verbatim>\<open>{ role, permissions: [string] }\<close>.\<close>

record custom_role =
  role :: string
  permissions :: "string list"

text \<open>The \<^verbatim>\<open>Parse.User\<close> of the principal: \<^verbatim>\<open>user.id\<close> and \<^verbatim>\<open>user.get('userRoles')\<close>,
  which is undefined (\<open>None\<close>) when the attribute is not set.\<close>

record user =
  user_id :: string
  user_userRoles :: "string list option"

text \<open>The arguments \<^verbatim>\<open>data\<close>, \<^verbatim>\<open>query\<close> and \<^verbatim>\<open>restQuery\<close> of a request, with the
  fields the code reads. A field that is absent is \<open>None\<close>.\<close>

record request_data =
  data_objectId :: "string option"
  data_classRoom :: "pointer option"
  data_post :: "pointer option"
  data_itemType :: "string option"
  data_itemId :: "string option"

record request_query =
  query_objectId :: "string option"

record rest_query =
  restQuery_classRoom :: "pointer option"

text \<open>A stored object as \<^verbatim>\<open>_queryToSpace\<close> reads it.\<close>

record stored_object =
  obj_className :: string
  obj_objectId :: string
  obj_classRoom :: "pointer option"
  obj_post :: "pointer option"

text \<open>A row of \<^verbatim>\<open>UBClassRoomUser\<close>: \<^verbatim>\<open>{ user, classRoom, role }\<close>, the user by its id.\<close>

record membership =
  m_user :: string
  m_classRoom :: pointer
  m_role :: string

text \<open>A row of \<^verbatim>\<open>_Role\<close>: the relations \<^verbatim>\<open>users\<close> and \<^verbatim>\<open>roles\<close> list the ids of
  the users and of the roles that are members of this role.\<close>

record role_row =
  r_objectId :: string
  r_name :: string
  r_users :: "string list"
  r_roles :: "string list"

subsection \<open>JavaScript truthiness and strings\<close>

text \<open>A string is truthy when it is not empty; undefined is falsy.\<close>

definition truthy :: "string option \<Rightarrow> bool" where
  "truthy v = (case v of None \<Rightarrow> False | Some s \<Rightarrow> s \<noteq> [])"

text \<open>A template literal prints undefined as the word \<^verbatim>\<open>undefined\<close>.\<close>

definition template :: "string option \<Rightarrow> string" where
  "template v = (case v of None \<Rightarrow> ''undefined'' | Some s \<Rightarrow> s)"

text \<open>\<^verbatim>\<open>str.split(c)\<close>: the pieces between the separators, at least one piece.\<close>

fun js_split :: "char \<Rightarrow> string \<Rightarrow> string list" where
  "js_split c [] = [[]]"
| "js_split c (x # xs) =
     (if x = c then [] # js_split c xs
      else (case js_split c xs of [] \<Rightarrow> [[x]] | w # ws \<Rightarrow> (x # w) # ws))"

text \<open>\<^verbatim>\<open>const [a, b] = r.split('-')\<close>: the first piece, and the second or undefined.\<close>

definition destructure2 :: "string \<Rightarrow> string \<times> string option" where
  "destructure2 r =
     (case js_split CHR ''-'' r of
        [] \<Rightarrow> ([], None)
      | [a] \<Rightarrow> (a, None)
      | a # b # _ \<Rightarrow> (a, Some b))"

text \<open>\<^verbatim>\<open>array.indexOf(v)\<close>: the first index of \<open>v\<close>, or -1.\<close>

fun indexOf :: "'a list \<Rightarrow> 'a \<Rightarrow> int" where
  "indexOf [] v = - 1"
| "indexOf (x # xs) v =
     (if x = v then 0 else (let i = indexOf xs v in if i < 0 then - 1 else i + 1))"

text \<open>\<^verbatim>\<open>array.find(p)\<close> is \<^const>\<open>find\<close> of the list library.
  \<^verbatim>\<open>[...new Set(names)]\<close> keeps the first occurrence of every element, in order.\<close>

definition Set_spread :: "'a list \<Rightarrow> 'a list" where
  "Set_spread names = fold (\<lambda>x acc. if x \<in> set acc then acc else acc @ [x]) names []"

section \<open>The module helpers of the custom role assignment\<close>

definition extractFirstWord :: "string \<Rightarrow> string" where
  "extractFirstWord str = (case js_split CHR ''-'' str of [] \<Rightarrow> [] | w # _ \<Rightarrow> w)"

definition hasStringInArray :: "string \<Rightarrow> string list \<Rightarrow> bool" where
  "hasStringInArray str array = (indexOf array str > - 1)"

definition getClassRoles :: "custom_role list \<Rightarrow> string \<Rightarrow> custom_role list" where
  "getClassRoles allCustomRoles className =
     filter (\<lambda>ac. hasStringInArray className (map extractFirstWord (permissions ac)))
       allCustomRoles"

text \<open>\<^verbatim>\<open>array.reduce((a, b) => b ? a.concat(b) : a, [])\<close> on an array of arrays: every
  array is truthy, and \<^verbatim>\<open>concat\<close> appends its elements.\<close>

definition flattenArray :: "'a list list \<Rightarrow> 'a list" where
  "flattenArray array = foldl (\<lambda>a b. a @ b) [] array"

text \<open>\<^verbatim>\<open>array.filter(a => !!a)\<close> on an array of objects and undefined entries.\<close>

definition removeEmptyValue :: "'a option list \<Rightarrow> 'a list" where
  "removeEmptyValue array = List.map_filter (\<lambda>a. a) array"

definition filterDuplication :: "'a list \<Rightarrow> 'a list" where
  "filterDuplication array =
     map snd (filter (\<lambda>(i, v). int i = indexOf array v) (enumerate 0 array))"

text \<open>The module function \<^verbatim>\<open>getUserRoles(allCustomRoles, uRoles, userId)\<close>.\<close>

definition getUserRoles :: "custom_role list \<Rightarrow> string list option \<Rightarrow> string \<Rightarrow> string list" where
  "getUserRoles allCustomRoles uRoles userId =
     (case uRoles of
        None \<Rightarrow> []
      | Some ur \<Rightarrow>
          if ur = [] then []
          else
            (let rawRoles = map permissions (filter (\<lambda>ac. hasStringInArray (role ac) ur) allCustomRoles);
                 roles = flattenArray rawRoles
             in roles @ [userId]))"

text \<open>The properties every object inherits from \<^verbatim>\<open>Object.prototype\<close>, each by the text a
  template literal prints for its value: the prototype itself for \<^verbatim>\<open>__proto__\<close>, a native
  function for the others. All these values are truthy.\<close>

definition inherited :: "string \<Rightarrow> string option" where
  "inherited key =
     (if key = ''__proto__'' then Some ''[object Object]''
      else if key = ''constructor'' then Some ''function Object() { [native code] }''
      else if key \<in> set [''__defineGetter__'', ''__defineSetter__'', ''hasOwnProperty'',
                ''__lookupGetter__'', ''__lookupSetter__'', ''isPrototypeOf'',
                ''propertyIsEnumerable'', ''toString'', ''valueOf'', ''toLocaleString'']
      then Some (''function '' @ key @ ''() { [native code] }'')
      else None)"

text \<open>The object literal \<^verbatim>\<open>roleMap\<close>, read at a key that may be undefined (the property
  \<^verbatim>\<open>undefined\<close> then): its own three properties, and the inherited ones.\<close>

definition roleMap :: "string option \<Rightarrow> string option" where
  "roleMap k =
     (if template k = ''create'' then Some ''write''
      else if template k = ''update'' then Some ''write''
      else if template k = ''read'' then Some ''read''
      else inherited (template k))"

definition transformUserRole :: "string \<Rightarrow> string" where
  "transformUserRole r =
     (case destructure2 r of
        (cName, cRole) \<Rightarrow>
          (if truthy (roleMap cRole) then ''role:'' @ cName @ ''-'' @ template (roleMap cRole)
           else ''role:'' @ cName))"

definition transformUserRoles :: "string list \<Rightarrow> string list" where
  "transformUserRoles roles = filterDuplication (map transformUserRole roles)"

text \<open>An element of the array \<^verbatim>\<open>transfromClassRoles\<close> returns: \<^verbatim>\<open>{ role, isCreate }\<close>;
  the legacy branch leaves \<^verbatim>\<open>isCreate\<close> out (\<open>None\<close>).\<close>

record scoped_role =
  sr_role :: string
  sr_isCreate :: "bool option"

definition transfromClassRole :: "string \<Rightarrow> string \<Rightarrow> string \<Rightarrow> scoped_role option" where
  "transfromClassRole className spaceId p =
     (case destructure2 p of
        (cName, permisson) \<Rightarrow>
          (if cName = className then
             Some \<lparr>sr_role = ''role:'' @ cName @ ''-'' @ spaceId @ ''-'' @ template (roleMap permisson),
                   sr_isCreate = Some (permisson = Some ''create'')\<rparr>
           else if cName = ''classRoom'' then
             Some \<lparr>sr_role = ''role:'' @ cName @ ''-'' @ spaceId @ ''-'' @ template permisson,
                   sr_isCreate = None\<rparr>
           else None))"

definition transfromClassRoles ::
  "custom_role option \<Rightarrow> string \<Rightarrow> string \<Rightarrow> scoped_role option list" where
  "transfromClassRoles matchedRole className spaceId =
     (case matchedRole of
        None \<Rightarrow> []
      | Some mr \<Rightarrow> map (transfromClassRole className spaceId) (permissions mr))"

definition isNewRoleEnabled :: "custom_role list \<Rightarrow> bool" where
  "isNewRoleEnabled allRoles =
     (case find (\<lambda>ar. role ar = ''root'') allRoles of
        None \<Rightarrow> False
      | Some rootRole \<Rightarrow>
          (case permissions rootRole of [] \<Rightarrow> False | p # _ \<Rightarrow> p = ''all''))"

section \<open>The data store and the principal\<close>

text \<open>The where clauses the code builds, and the observable input and output of a
  resolution: the queries handed to \<^verbatim>\<open>RestQuery\<close> and the accesses to the role cache.\<close>

datatype where_clause =
    Where_all
  | Where_objectId string
  | Where_user_classRoom string pointer
  | Where_users string
  | Where_roles string
  | Where_roles_in "string list"

datatype io =
    Query string where_clause
  | Cache_get string
  | Cache_put string "string list"

text \<open>The data store: the rows of the collections the resolution reads, and the queries
  that the store fails (\<open>rejects\<close> gives the error of a failing query).\<close>

record store =
  UBRoleDefinition :: "custom_role list"
  UBClassRoomUser :: "membership list"
  Role :: "role_row list"
  objects :: "stored_object list"
  rejects :: "string \<Rightarrow> where_clause \<Rightarrow> error option"

text \<open>Modelled from the spec: \<^verbatim>\<open>new RestQuery(config, master(config), className, restWhere, {}).execute()\<close>
  (\<^verbatim>\<open>RestQuery.js\<close> is not among the sources). By section 6 of the specification it
  is a filtered read of a named collection with equality and is-member-of predicates; it
  resolves with the matching rows or rejects with the failure of the data store.\<close>

definition execute :: "store \<Rightarrow> string \<Rightarrow> where_clause \<Rightarrow> 'row list \<Rightarrow> 'row list promise" where
  "execute st className restWhere rows =
     (case rejects st className restWhere of
        Some e \<Rightarrow> Rejected e
      | None \<Rightarrow> Resolved rows)"

definition find_objects :: "store \<Rightarrow> string \<Rightarrow> string \<Rightarrow> stored_object list" where
  "find_objects st className oid =
     filter (\<lambda>obj. obj_className obj = className \<and> obj_objectId obj = oid) (objects st)"

definition find_memberships :: "store \<Rightarrow> string \<Rightarrow> pointer \<Rightarrow> membership list" where
  "find_memberships st uid spacePointer =
     filter (\<lambda>m. m_user m = uid \<and> m_classRoom m = spacePointer) (UBClassRoomUser st)"

fun matches_role :: "where_clause \<Rightarrow> role_row \<Rightarrow> bool" where
  "matches_role Where_all r = True"
| "matches_role (Where_objectId oid) r = (r_objectId r = oid)"
| "matches_role (Where_user_classRoom uid sp) r = False"
| "matches_role (Where_users uid) r = (uid \<in> set (r_users r))"
| "matches_role (Where_roles rid) r = (rid \<in> set (r_roles r))"
| "matches_role (Where_roles_in ins) r = (set ins \<inter> set (r_roles r) \<noteq> {})"

definition find_roles :: "store \<Rightarrow> where_clause \<Rightarrow> role_row list" where
  "find_roles st restWhere = filter (matches_role restWhere) (Role st)"

text \<open>The \<^verbatim>\<open>Auth\<close> object: its fields, the content of \<^verbatim>\<open>config.cacheController.role\<close>,
  and the log of the input and output done so far. \<^verbatim>\<open>rolePromise\<close> holds the stored
  promise by the way it settles.\<close>

record auth =
  isMaster :: bool
  user :: "user option"
  userRoles :: "string list"
  fetchedRoles :: bool
  rolePromise :: "string list promise option"
  role_cache :: "(string \<times> string list) list"
  io_log :: "io list"

definition issue :: "io \<Rightarrow> auth \<Rightarrow> auth" where
  "issue x a = a\<lparr>io_log := io_log a @ [x]\<rparr>"

text \<open>\<^verbatim>\<open>_queryByClassName\<close> wraps the promise of \<^verbatim>\<open>execute()\<close> in
  \<^verbatim>\<open>new Promise(resolve => ...)\<close> and only ever calls \<^verbatim>\<open>resolve\<close>: when
  \<^verbatim>\<open>execute()\<close> rejects, nothing settles the new promise.\<close>

definition queryByClassName :: "'a promise \<Rightarrow> 'a promise" where
  "queryByClassName executed =
     (case executed of
        Resolved results \<Rightarrow> Resolved results
      | Rejected e \<Rightarrow> Pending
      | Pending \<Rightarrow> Pending)"

definition getAllCustomRoles :: "store \<Rightarrow> custom_role list promise" where
  "getAllCustomRoles st =
     queryByClassName (execute st ''UBRoleDefinition'' Where_all (UBRoleDefinition st))"

section \<open>The space pointer\<close>

text \<open>\<^verbatim>\<open>_queryToSpace\<close> follows the \<^verbatim>\<open>post\<close> references for as long as the store
  gives them; the fuel bounds the number of hops, and \<open>None\<close> is a chase that has not
  ended within it.\<close>

fun queryToSpace ::
  "nat \<Rightarrow> store \<Rightarrow> string \<Rightarrow> string \<Rightarrow> auth \<Rightarrow> (pointer option promise \<times> auth) option" where
  "queryToSpace 0 st oid className a = None"
| "queryToSpace (Suc fuel) st oid className a =
     (let a1 = issue (Query className (Where_objectId oid)) a in
      case queryByClassName (execute st className (Where_objectId oid) (find_objects st className oid)) of
        Resolved objs \<Rightarrow>
          (case objs of
             obj # _ \<Rightarrow>
               (case obj_classRoom obj of
                  Some classRoom \<Rightarrow> Some (Resolved (Some classRoom), a1)
                | None \<Rightarrow>
                    (case obj_post obj of
                       Some post \<Rightarrow>
                         if obj_objectId obj \<noteq> []
                         then queryToSpace fuel st (ptr_objectId post) (ptr_className post) a1
                         else Some (Resolved None, a1)
                     | None \<Rightarrow> Some (Resolved None, a1)))
           | [] \<Rightarrow> Some (Resolved None, a1))
      | Rejected e \<Rightarrow> Some (Rejected e, a1)
      | Pending \<Rightarrow> Some (Pending, a1))"

text \<open>The three assignments of \<^verbatim>\<open>restWhere\<close> and \<^verbatim>\<open>restClass\<close> in
  \<^verbatim>\<open>getSpacePointer\<close>, as the pair (object id, class) or \<open>None\<close> while unassigned.\<close>

definition from_post :: "request_data option \<Rightarrow> (string \<times> string) option \<Rightarrow> (string \<times> string) option" where
  "from_post data rest =
     (case data of
        None \<Rightarrow> rest
      | Some d \<Rightarrow>
          (case data_post d of
             None \<Rightarrow> rest
           | Some post \<Rightarrow>
               if ptr_objectId post \<noteq> [] then Some (ptr_objectId post, ptr_className post) else rest))"

definition from_item :: "request_data option \<Rightarrow> (string \<times> string) option \<Rightarrow> (string \<times> string) option" where
  "from_item data rest =
     (case data of
        None \<Rightarrow> rest
      | Some d \<Rightarrow>
          (case (data_itemType d, data_itemId d) of
             (Some itemType, Some itemId) \<Rightarrow>
               if itemType \<noteq> [] \<and> itemId \<noteq> [] then Some (itemId, itemType) else rest
           | _ \<Rightarrow> rest))"

definition from_query ::
  "string \<Rightarrow> request_query option \<Rightarrow> (string \<times> string) option \<Rightarrow> (string \<times> string) option" where
  "from_query className query rest =
     (case query of
        None \<Rightarrow> rest
      | Some q \<Rightarrow>
          (case query_objectId q of
             None \<Rightarrow> rest
           | Some oid \<Rightarrow> if oid \<noteq> [] then Some (oid, className) else rest))"

text \<open>\<^verbatim>\<open>restWhere && restClass ? this._queryToSpace(restWhere, restClass) : Promise.resolve()\<close>\<close>

definition queryToSpace_from ::
  "nat \<Rightarrow> store \<Rightarrow> auth \<Rightarrow> (string \<times> string) option \<Rightarrow> (pointer option promise \<times> auth) option" where
  "queryToSpace_from fuel st a rest =
     (case rest of
        Some (oid, restClass) \<Rightarrow>
          if restClass \<noteq> [] then queryToSpace fuel st oid restClass a
          else Some (Resolved None, a)
      | None \<Rightarrow> Some (Resolved None, a))"

definition getSpacePointer ::
  "nat \<Rightarrow> store \<Rightarrow> string \<Rightarrow> request_data option \<Rightarrow> request_query option \<Rightarrow> rest_query option \<Rightarrow>
   auth \<Rightarrow> (pointer option promise \<times> auth) option" where
  "getSpacePointer fuel st className data query restQuery a =
     (case Option.bind data data_classRoom of
        Some classRoom \<Rightarrow> Some (Resolved (Some classRoom), a)
      | None \<Rightarrow>
          (case Option.bind restQuery restQuery_classRoom of
             Some classRoom \<Rightarrow> Some (Resolved (Some classRoom), a)
           | None \<Rightarrow>
               queryToSpace_from fuel st a
                 (from_query className query (from_item data (from_post data None)))))"

text \<open>The first value that is present, for stating an order of precedence.\<close>

fun first_match :: "'a option list \<Rightarrow> 'a option" where
  "first_match [] = None"
| "first_match (Some x # rest) = Some x"
| "first_match (None # rest) = first_match rest"

section \<open>The resolvers\<close>

text \<open>The array \<^verbatim>\<open>flattenUserClassRoles\<close> of \<^verbatim>\<open>_loadCustomRoles\<close>: the scoped tokens of
  the membership rows, flattened, without the undefined entries.\<close>

definition flattenUserClassRoles ::
  "custom_role list \<Rightarrow> string \<Rightarrow> membership list \<Rightarrow> scoped_role list" where
  "flattenUserClassRoles classRoles className results =
     removeEmptyValue (flattenArray (map (\<lambda>result.
         let spaceId = ptr_objectId (m_classRoom result);
             matchedRole = find (\<lambda>cr. role cr = m_role result) classRoles
         in transfromClassRoles matchedRole className spaceId) results))"

text \<open>\<^verbatim>\<open>reduce((a, b) => a || b.isCreate, false)\<close>, read as a condition.\<close>

definition canCreate :: "scoped_role list \<Rightarrow> bool" where
  "canCreate tokens = foldl (\<lambda>a b. a \<or> sr_isCreate b = Some True) False tokens"

definition not_allowed_space :: "user \<Rightarrow> pointer \<Rightarrow> error" where
  "not_allowed_space u spacePointer =
     Parse_Error OPERATION_FORBIDDEN
       (''User '' @ user_id u @ '' is not allowed to access space '' @ ptr_objectId spacePointer)"

definition not_allowed_create :: "user \<Rightarrow> string \<Rightarrow> error" where
  "not_allowed_create u className =
     Parse_Error OPERATION_FORBIDDEN
       (''User '' @ user_id u @ '' is not allowed to create new object in '' @ className)"

definition loadCustomRoles ::
  "store \<Rightarrow> user \<Rightarrow> string list \<Rightarrow> custom_role list \<Rightarrow> string \<Rightarrow> pointer \<Rightarrow> bool \<Rightarrow> auth \<Rightarrow>
   string list promise \<times> auth" where
  "loadCustomRoles st u uRoles classRoles className spacePointer isCreateRequest a =
     (let restWhere = Where_user_classRoom (user_id u) spacePointer;
          a1 = issue (Query ''UBClassRoomUser'' restWhere) a
      in case queryByClassName
                (execute st ''UBClassRoomUser'' restWhere (find_memberships st (user_id u) spacePointer)) of
           Resolved results \<Rightarrow>
             if results = [] then (Rejected (not_allowed_space u spacePointer), a1)
             else
               (let tokens = flattenUserClassRoles classRoles className results in
                if isCreateRequest \<and> \<not> canCreate tokens
                then (Rejected (not_allowed_create u className), a1)
                else
                  (let cRoles = map sr_role tokens;
                       tCRoles = filterDuplication cRoles;
                       a2 = a1\<lparr>userRoles := tCRoles @ uRoles, fetchedRoles := True, rolePromise := None\<rparr>
                   in (Resolved (userRoles a2), a2)))
         | Rejected e \<Rightarrow> (Rejected e, a1)
         | Pending \<Rightarrow> (Pending, a1))"

text \<open>\<^verbatim>\<open>_getAllRolesNamesForRoleIds\<close>: \<^verbatim>\<open>queriedRoles\<close> is a plain object, here the set of
  its keys whose value is \<^verbatim>\<open>true\<close>. \<^verbatim>\<open>queriedRoles[roleID] = true\<close> marks every key but
  \<^verbatim>\<open>__proto__\<close>, whose inherited setter ignores a value that is not an object.\<close>

definition mark :: "string list \<Rightarrow> string set \<Rightarrow> string set" where
  "mark ins queriedRoles = queriedRoles \<union> set (filter (\<lambda>roleID. roleID \<noteq> ''__proto__'') ins)"

text \<open>The walk goes on for as long as a round finds roles that are not marked; the fuel
  bounds the number of rounds, and \<open>None\<close> is a walk that has not ended within it.\<close>

fun getAllRolesNamesForRoleIds ::
  "nat \<Rightarrow> store \<Rightarrow> string list \<Rightarrow> string list \<Rightarrow> string set \<Rightarrow> auth \<Rightarrow>
   (string list promise \<times> auth) option" where
  "getAllRolesNamesForRoleIds 0 st roleIDs names queriedRoles a = None"
| "getAllRolesNamesForRoleIds (Suc fuel) st roleIDs names queriedRoles a =
     (let ins = filter (\<lambda>roleID. roleID \<notin> queriedRoles) roleIDs;
          queriedRoles' = mark ins queriedRoles
      in if ins = [] then Some (Resolved (Set_spread names), a)
         else
           (let restWhere = (case ins of [roleID] \<Rightarrow> Where_roles roleID | _ \<Rightarrow> Where_roles_in ins);
                a1 = issue (Query ''_Role'' restWhere) a
            in case execute st ''_Role'' restWhere (find_roles st restWhere) of
                 Resolved results \<Rightarrow>
                   if results = [] then Some (Resolved (Set_spread names), a1)
                   else
                     (case getAllRolesNamesForRoleIds fuel st (map r_objectId results)
                             (names @ map r_name results) queriedRoles' a1 of
                        None \<Rightarrow> None
                      | Some (Resolved names', a2) \<Rightarrow> Some (Resolved (Set_spread names'), a2)
                      | Some (Rejected e, a2) \<Rightarrow> Some (Rejected e, a2)
                      | Some (Pending, a2) \<Rightarrow> Some (Pending, a2))
               | Rejected e \<Rightarrow> Some (Rejected e, a1)
               | Pending \<Rightarrow> Some (Pending, a1)))"

definition cache_put :: "string \<Rightarrow> string list \<Rightarrow> auth \<Rightarrow> auth" where
  "cache_put k v a = issue (Cache_put k v) (a\<lparr>role_cache := (k, v) # role_cache a\<rparr>)"

definition loadRoles ::
  "nat \<Rightarrow> store \<Rightarrow> user \<Rightarrow> string list \<Rightarrow> auth \<Rightarrow> (string list promise \<times> auth) option" where
  "loadRoles fuel st u uRoles a =
     (let a1 = issue (Cache_get (user_id u)) a
      in case map_of (role_cache a1) (user_id u) of
           Some cachedRoles \<Rightarrow>
             Some (Resolved cachedRoles, a1\<lparr>fetchedRoles := True, userRoles := cachedRoles\<rparr>)
         | None \<Rightarrow>
             (let restWhere = Where_users (user_id u);
                  a2 = issue (Query ''_Role'' restWhere) a1
              in case execute st ''_Role'' restWhere (find_roles st restWhere) of
                   Resolved results \<Rightarrow>
                     if results = [] then
                       (let a3 = a2\<lparr>userRoles := [], fetchedRoles := True, rolePromise := None\<rparr>;
                            a4 = cache_put (user_id u) (userRoles a3) a3
                        in Some (Resolved (userRoles a4), a4))
                     else
                       (case getAllRolesNamesForRoleIds fuel st (map r_objectId results)
                               (map r_name results) {} a2 of
                          None \<Rightarrow> None
                        | Some (Resolved roleNames, a3) \<Rightarrow>
                            (let a4 = a3\<lparr>userRoles := map (\<lambda>r. ''role:'' @ r) roleNames @ uRoles,
                                        fetchedRoles := True, rolePromise := None\<rparr>;
                                 a5 = cache_put (user_id u) (userRoles a4) a4
                             in Some (Resolved (userRoles a5), a5))
                        | Some (Rejected e, a3) \<Rightarrow> Some (Rejected e, a3)
                        | Some (Pending, a3) \<Rightarrow> Some (Pending, a3))
                 | Rejected e \<Rightarrow> Some (Rejected e, a2)
                 | Pending \<Rightarrow> Some (Pending, a2)))"

section \<open>The entry point\<close>

text \<open>\<^verbatim>\<open>this.rolePromise = resolver(...)\<close>: the promise is stored while it is pending; the
  callbacks of the resolver run afterwards and may write null. When they do not, the
  stored promise is the one that has settled as the resolver's result. A resolver that
  does not end leaves the call without an end.\<close>

definition assign_rolePromise ::
  "(auth \<Rightarrow> (string list promise \<times> auth) option) \<Rightarrow> auth \<Rightarrow> (string list promise \<times> auth) option" where
  "assign_rolePromise resolver a =
     (case resolver (a\<lparr>rolePromise := Some Pending\<rparr>) of
        None \<Rightarrow> None
      | Some (p, a') \<Rightarrow>
          Some (p, case rolePromise a' of None \<Rightarrow> a' | Some _ \<Rightarrow> a'\<lparr>rolePromise := Some p\<rparr>))"

definition isCreateRequest :: "request_data option \<Rightarrow> request_query option \<Rightarrow> bool" where
  "isCreateRequest data query =
     (\<not> truthy (Option.bind data data_objectId) \<and> \<not> truthy (Option.bind query query_objectId))"

text \<open>The callback of \<^verbatim>\<open>getSpacePointer(...).then\<close> in \<^verbatim>\<open>getUserRoles\<close>.\<close>

definition getUserRoles_spacePointer ::
  "nat \<Rightarrow> store \<Rightarrow> user \<Rightarrow> string \<Rightarrow> request_data option \<Rightarrow> request_query option \<Rightarrow>
   custom_role list \<Rightarrow> pointer option \<Rightarrow> auth \<Rightarrow> (string list promise \<times> auth) option" where
  "getUserRoles_spacePointer fuel st u className data query acRoles spacePointer a =
     (let classRoles = getClassRoles acRoles className;
          uRoles = getUserRoles acRoles (user_userRoles u) (user_id u);
          tUserRoles = transformUserRoles uRoles
      in case (classRoles \<noteq> [], spacePointer) of
           (True, Some sp) \<Rightarrow>
             assign_rolePromise
               (Some \<circ> loadCustomRoles st u tUserRoles classRoles className sp (isCreateRequest data query)) a
         | _ \<Rightarrow>
             (let roleName = className @ ''-create'';
                  canCreate = (indexOf uRoles roleName > - 1)
              in if isCreateRequest data query \<and> \<not> canCreate
                 then Some (Rejected (not_allowed_create u className), a)
                 else assign_rolePromise (loadRoles fuel st u tUserRoles) a))"

text \<open>The callback of \<^verbatim>\<open>_getAllCustomRoles().then\<close> in \<^verbatim>\<open>getUserRoles\<close>.\<close>

definition getUserRoles_acRoles ::
  "nat \<Rightarrow> store \<Rightarrow> user \<Rightarrow> string \<Rightarrow> request_data option \<Rightarrow> request_query option \<Rightarrow>
   rest_query option \<Rightarrow> custom_role list \<Rightarrow> auth \<Rightarrow> (string list promise \<times> auth) option" where
  "getUserRoles_acRoles fuel st u className data query restQuery acRoles a =
     (if \<not> isNewRoleEnabled acRoles then assign_rolePromise (loadRoles fuel st u []) a
      else
        (case getSpacePointer fuel st className data query restQuery a of
           None \<Rightarrow> None
         | Some (Resolved spacePointer, a1) \<Rightarrow>
             getUserRoles_spacePointer fuel st u className data query acRoles spacePointer a1
         | Some (Rejected e, a1) \<Rightarrow> Some (Rejected e, a1)
         | Some (Pending, a1) \<Rightarrow> Some (Pending, a1)))"

text \<open>A call of \<^verbatim>\<open>Auth.prototype.getUserRoles\<close> first runs up to its return: it
  returns a promise at once, or it has sent the query for the role definitions and
  returns the promise of the callbacks to come.\<close>

datatype call = Returned "string list promise" | Started user

definition getUserRoles_enter :: "auth \<Rightarrow> call \<times> auth" where
  "getUserRoles_enter a =
     (case user a of
        None \<Rightarrow> (Returned (Resolved []), a)
      | Some u \<Rightarrow>
          if isMaster a then (Returned (Resolved []), a)
          else if fetchedRoles a then (Returned (Resolved (userRoles a)), a)
          else
            (case rolePromise a of
               Some p \<Rightarrow> (Returned p, a)
             | None \<Rightarrow> (Started u, issue (Query ''UBRoleDefinition'' Where_all) a)))"

text \<open>The callbacks of a call, run until nothing is left to run.\<close>

definition getUserRoles_callbacks ::
  "nat \<Rightarrow> store \<Rightarrow> string \<Rightarrow> request_data option \<Rightarrow> request_query option \<Rightarrow>
   rest_query option \<Rightarrow> call \<Rightarrow> auth \<Rightarrow> (string list promise \<times> auth) option" where
  "getUserRoles_callbacks fuel st className data query restQuery c a =
     (case c of
        Returned p \<Rightarrow> Some (p, a)
      | Started u \<Rightarrow>
          (case getAllCustomRoles st of
             Resolved acRoles \<Rightarrow> getUserRoles_acRoles fuel st u className data query restQuery acRoles a
           | Rejected e \<Rightarrow> Some (Rejected e, a)
           | Pending \<Rightarrow> Some (Pending, a)))"

text \<open>A call that runs to its end before anything else happens to the principal. The fuel
  bounds the hops of the chase and the rounds of the walk over the roles; \<open>None\<close> is a call
  in which one of them has not ended within it.\<close>

definition Auth_getUserRoles ::
  "nat \<Rightarrow> store \<Rightarrow> string \<Rightarrow> request_data option \<Rightarrow> request_query option \<Rightarrow>
   rest_query option \<Rightarrow> auth \<Rightarrow> (string list promise \<times> auth) option" where
  "Auth_getUserRoles fuel st className data query restQuery a =
     (case getUserRoles_enter a of
        (c, a1) \<Rightarrow> getUserRoles_callbacks fuel st className data query restQuery c a1)"

text \<open>Two calls on the same principal, the second made before any callback of the first
  has run; then the callbacks of the first call run, then those of the second.\<close>

definition getUserRoles_overlapping ::
  "nat \<Rightarrow> store \<Rightarrow> string \<Rightarrow> request_data option \<Rightarrow> request_query option \<Rightarrow>
   rest_query option \<Rightarrow> auth \<Rightarrow> (string list promise \<times> string list promise \<times> auth) option" where
  "getUserRoles_overlapping fuel st className data query restQuery a =
     (case getUserRoles_enter a of
        (c1, a1) \<Rightarrow>
          (case getUserRoles_enter a1 of
             (c2, a2) \<Rightarrow>
               (case getUserRoles_callbacks fuel st className data query restQuery c1 a2 of
                  None \<Rightarrow> None
                | Some (p1, a3) \<Rightarrow>
                    (case getUserRoles_callbacks fuel st className data query restQuery c2 a3 of
                       None \<Rightarrow> None
                     | Some (p2, a4) \<Rightarrow> Some (p1, p2, a4)))))"

text \<open>The \<^verbatim>\<open>Auth\<close> object as its constructor leaves it, for a user.\<close>

definition new_Auth :: "bool \<Rightarrow> user option \<Rightarrow> auth" where
  "new_Auth master u =
     \<lparr>isMaster = master, user = u, userRoles = [], fetchedRoles = False, rolePromise = None,
      role_cache = [], io_log = []\<rparr>"

section \<open>The role graph\<close>

text \<open>The rows of the roles that the roles \<open>I\<close> are members of, directly or through other
  roles: row \<open>r\<close> is a parent of the role \<open>i\<close> when its relation \<^verbatim>\<open>roles\<close> holds \<open>i\<close>.\<close>

inductive_set parent_roles :: "store \<Rightarrow> string set \<Rightarrow> role_row set" for st I where
  direct: "i \<in> I \<Longrightarrow> r \<in> set (Role st) \<Longrightarrow> i \<in> set (r_roles r) \<Longrightarrow> r \<in> parent_roles st I"
| inherited: "r' \<in> parent_roles st I \<Longrightarrow> r \<in> set (Role st) \<Longrightarrow> r_objectId r' \<in> set (r_roles r) \<Longrightarrow>
     r \<in> parent_roles st I"

text \<open>The same, going on only from roles that are not marked as queried.\<close>

inductive_set unvisited_parents :: "store \<Rightarrow> string set \<Rightarrow> string set \<Rightarrow> role_row set"
  for st I Q where
  first: "i \<in> I \<Longrightarrow> i \<notin> Q \<Longrightarrow> r \<in> set (Role st) \<Longrightarrow> i \<in> set (r_roles r) \<Longrightarrow>
     r \<in> unvisited_parents st I Q"
| further: "r' \<in> unvisited_parents st I Q \<Longrightarrow> r_objectId r' \<notin> Q \<Longrightarrow> r \<in> set (Role st) \<Longrightarrow>
     r_objectId r' \<in> set (r_roles r) \<Longrightarrow> r \<in> unvisited_parents st I Q"

text \<open>The ids a query of \<^verbatim>\<open>_Role\<close> by the relation \<^verbatim>\<open>roles\<close> asks for, and rounds of
  queries none of which asks for an id that was marked or asked for before.\<close>

fun round_ids :: "io \<Rightarrow> string list" where
  "round_ids (Query className (Where_roles roleID)) = [roleID]"
| "round_ids (Query className (Where_roles_in ins)) = ins"
| "round_ids x = []"

fun never_again :: "string set \<Rightarrow> string list list \<Rightarrow> bool" where
  "never_again seen [] = True"
| "never_again seen (ids # rounds) = (set ids \<inter> seen = {} \<and> never_again (seen \<union> set ids) rounds)"

text \<open>The ids of the stored roles, and a bound on the rounds a walk has left: a round either
  marks an id of the store that was not marked, or it is the first round and its ids are not
  of the store.\<close>

definition role_ids :: "store \<Rightarrow> string set" where
  "role_ids st = r_objectId ` set (Role st)"

definition walk_measure :: "store \<Rightarrow> string list \<Rightarrow> string set \<Rightarrow> nat" where
  "walk_measure st roleIDs queriedRoles =
     2 * card (role_ids st - queriedRoles) + (if set roleIDs \<subseteq> role_ids st then 0 else 1)"

section \<open>The state of the principal, for the proofs\<close>

text \<open>What a step may change of the principal besides the log and the cache.\<close>

definition same_principal :: "auth \<Rightarrow> auth \<Rightarrow> bool" where
  "same_principal a a' = (isMaster a' = isMaster a \<and> user a' = user a)"

definition untouched :: "auth \<Rightarrow> auth \<Rightarrow> bool" where
  "untouched a a' =
     (isMaster a' = isMaster a \<and> user a' = user a \<and> userRoles a' = userRoles a \<and>
      fetchedRoles a' = fetchedRoles a \<and> rolePromise a' = rolePromise a \<and>
      role_cache a' = role_cache a)"

text \<open>The two resolvers a call stores in \<^verbatim>\<open>rolePromise\<close>.\<close>

definition resolver :: "(auth \<Rightarrow> (string list promise \<times> auth) option) \<Rightarrow> bool" where
  "resolver r =
     ((\<exists>st u uRoles classRoles className sp create.
         r = Some \<circ> loadCustomRoles st u uRoles classRoles className sp create) \<or>
      (\<exists>fuel st u uRoles. r = loadRoles fuel st u uRoles))"

section \<open>Example data\<close>

text \<open>A deployment with the custom role system switched on: two spaces, a student and an
  instructor definition for the class \<^verbatim>\<open>Post\<close>, and a user who is a student of the first
  space and an instructor of the second. The role graph has a cycle: role \<^verbatim>\<open>A\<close> is a
  member of role \<^verbatim>\<open>B\<close>, and \<^verbatim>\<open>B\<close> of \<^verbatim>\<open>A\<close>.\<close>

definition space1 :: pointer where
  "space1 = \<lparr>ptr_className = ''UBClassRoom'', ptr_objectId = ''s1''\<rparr>"

definition space2 :: pointer where
  "space2 = \<lparr>ptr_className = ''UBClassRoom'', ptr_objectId = ''s2''\<rparr>"

definition alice :: user where
  "alice = \<lparr>user_id = ''u1'', user_userRoles = None\<rparr>"

definition ex_definitions :: "custom_role list" where
  "ex_definitions =
     [\<lparr>role = ''root'', permissions = [''all'']\<rparr>,
      \<lparr>role = ''student'', permissions = [''Post-read'']\<rparr>,
      \<lparr>role = ''instructor'', permissions = [''Post-create'', ''Post-update'']\<rparr>]"

definition no_failure :: "string \<Rightarrow> where_clause \<Rightarrow> error option" where
  "no_failure className restWhere = None"

definition ex_store :: store where
  "ex_store =
     \<lparr>UBRoleDefinition = ex_definitions,
      UBClassRoomUser =
        [\<lparr>m_user = ''u1'', m_classRoom = space1, m_role = ''student''\<rparr>,
         \<lparr>m_user = ''u1'', m_classRoom = space2, m_role = ''instructor''\<rparr>],
      Role =
        [\<lparr>r_objectId = ''A'', r_name = ''a'', r_users = [''u1''], r_roles = [''B'']\<rparr>,
         \<lparr>r_objectId = ''B'', r_name = ''b'', r_users = [], r_roles = [''A'']\<rparr>],
      objects =
        [\<lparr>obj_className = ''Post'', obj_objectId = ''p1'', obj_classRoom = Some space1, obj_post = None\<rparr>,
         \<lparr>obj_className = ''Comment'', obj_objectId = ''c1'', obj_classRoom = Some space2, obj_post = None\<rparr>],
      rejects = no_failure\<rparr>"

text \<open>A space in which the user has no membership.\<close>

definition space9 :: pointer where
  "space9 = \<lparr>ptr_className = ''UBClassRoom'', ptr_objectId = ''s9''\<rparr>"

text \<open>Request data that names a space, and nothing else.\<close>

definition data_in :: "pointer \<Rightarrow> request_data" where
  "data_in classRoom =
     \<lparr>data_objectId = None, data_classRoom = Some classRoom, data_post = None,
      data_itemType = None, data_itemId = None\<rparr>"

text \<open>Request data that refers to the post \<^verbatim>\<open>p1\<close>.\<close>

definition data_post_p1 :: request_data where
  "data_post_p1 =
     \<lparr>data_objectId = None, data_classRoom = None,
      data_post = Some \<lparr>ptr_className = ''Post'', ptr_objectId = ''p1''\<rparr>,
      data_itemType = None, data_itemId = None\<rparr>"



text \<open>A data store that fails every query of one collection.\<close>

definition failing_on :: "string \<Rightarrow> string \<Rightarrow> where_clause \<Rightarrow> error option" where
  "failing_on failing className restWhere =
     (if className = failing then Some (Parse_Error 1 ''the data store is down'') else None)"

text \<open>Two role graphs with a role of the id \<^verbatim>\<open>__proto__\<close>: one where this role is a member of
  itself, and one where it and the role \<^verbatim>\<open>B\<close> are members of each other.\<close>

definition proto_store :: store where
  "proto_store =
     \<lparr>UBRoleDefinition = [], UBClassRoomUser = [],
      Role = [\<lparr>r_objectId = ''__proto__'', r_name = ''p'', r_users = [''u1''], r_roles = [''__proto__'']\<rparr>],
      objects = [], rejects = no_failure\<rparr>"

definition proto_pair_store :: store where
  "proto_pair_store =
     \<lparr>UBRoleDefinition = [], UBClassRoomUser = [],
      Role = [\<lparr>r_objectId = ''__proto__'', r_name = ''p'', r_users = [''u1''], r_roles = [''B'']\<rparr>,
              \<lparr>r_objectId = ''B'', r_name = ''b'', r_users = [], r_roles = [''__proto__'']\<rparr>],
      objects = [], rejects = no_failure\<rparr>"

text \<open>The definitions of the example data and of the store, for evaluation.\<close>

lemmas ex_simps = space1_def space2_def space9_def alice_def ex_definitions_def no_failure_def ex_store_def
  data_in_def new_Auth_def

lemmas query_simps = queryByClassName_def execute_def find_objects_def find_memberships_def
  find_roles_def issue_def

section \<open>Facts about the helpers\<close>

lemma indexOf_range:
  "(v \<notin> set xs \<longrightarrow> indexOf xs v = - 1) \<and>
   (v \<in> set xs \<longrightarrow> 0 \<le> indexOf xs v \<and> indexOf xs v < int (length xs))"
  by (induction xs) (auto simp: Let_def)

lemma indexOf_mem: "(0 \<le> indexOf xs v) = (v \<in> set xs)"
  using indexOf_range[of v xs] by auto

lemma indexOf_append:
  "indexOf (xs @ ys) v =
     (if v \<in> set xs then indexOf xs v
      else if v \<in> set ys then int (length xs) + indexOf ys v else - 1)"
proof (induction xs)
  case Nil
  show ?case using indexOf_range[of v ys] by auto
next
  case (Cons a xs)
  show ?case
    using Cons indexOf_range[of v xs] indexOf_range[of v ys] by (auto simp: Let_def)
qed

lemma hasStringInArray_mem: "hasStringInArray str array = (str \<in> set array)"
  using indexOf_range[of str array] by (auto simp: hasStringInArray_def)

lemma filterDuplication_Nil: "filterDuplication [] = []"
  by (simp add: filterDuplication_def)

lemma filterDuplication_snoc:
  "filterDuplication (xs @ [x]) = filterDuplication xs @ (if x \<in> set xs then [] else [x])"
proof -
  have old: "filter (\<lambda>(i, v). int i = indexOf (xs @ [x]) v) (enumerate 0 xs) =
             filter (\<lambda>(i, v). int i = indexOf xs v) (enumerate 0 xs)"
    by (rule filter_cong) (auto simp: indexOf_append in_set_enumerate_eq)
  have new: "filter (\<lambda>(i, v). int i = indexOf (xs @ [x]) v) [(length xs, x)] =
             (if x \<in> set xs then [] else [(length xs, x)])"
    using indexOf_range[of x xs] by (auto simp: indexOf_append)
  have e: "enumerate 0 (xs @ [x]) = enumerate 0 xs @ [(length xs, x)]"
    by (simp add: enumerate_append_eq)
  show ?thesis
    unfolding filterDuplication_def e filter_append old new by simp
qed

lemma set_filterDuplication: "set (filterDuplication xs) = set xs"
  by (induction xs rule: rev_induct) (auto simp: filterDuplication_snoc filterDuplication_Nil)

lemma distinct_filterDuplication: "distinct (filterDuplication xs)"
  by (induction xs rule: rev_induct)
     (auto simp: filterDuplication_snoc set_filterDuplication filterDuplication_Nil)

lemma flattenArray_concat: "flattenArray xss = concat xss"
proof -
  have "foldl (\<lambda>a b. a @ b) acc xss = acc @ concat xss" for acc
    by (induction xss arbitrary: acc) auto
  then show ?thesis by (simp add: flattenArray_def)
qed

lemma js_split_no_separator: "c \<notin> set s \<Longrightarrow> js_split c s = [s]"
  by (induction s) auto

lemma transformUserRole_plain: "CHR ''-'' \<notin> set r \<Longrightarrow> transformUserRole r = ''role:'' @ r"
  by (simp add: transformUserRole_def destructure2_def js_split_no_separator roleMap_def
      inherited_def template_def truthy_def)

lemma find_Some_split:
  "(find P xs = Some x) = (\<exists>pre post. xs = pre @ x # post \<and> (\<forall>y\<in>set pre. \<not> P y) \<and> P x)"
proof (induction xs)
  case Nil
  show ?case by simp
next
  case (Cons a xs)
  show ?case
  proof (cases "P a")
    case True
    have "(a = x) = (\<exists>pre post. a # xs = pre @ x # post \<and> (\<forall>y\<in>set pre. \<not> P y) \<and> P x)"
    proof
      assume "a = x"
      with True have "a # xs = [] @ x # xs \<and> (\<forall>y\<in>set []. \<not> P y) \<and> P x" by simp
      then show "\<exists>pre post. a # xs = pre @ x # post \<and> (\<forall>y\<in>set pre. \<not> P y) \<and> P x" by blast
    next
      assume "\<exists>pre post. a # xs = pre @ x # post \<and> (\<forall>y\<in>set pre. \<not> P y) \<and> P x"
      then obtain pre post where h: "a # xs = pre @ x # post" "\<forall>y\<in>set pre. \<not> P y" by blast
      with True show "a = x" by (cases pre) auto
    qed
    with True show ?thesis by simp
  next
    case False
    have "(\<exists>pre post. xs = pre @ x # post \<and> (\<forall>y\<in>set pre. \<not> P y) \<and> P x) =
          (\<exists>pre post. a # xs = pre @ x # post \<and> (\<forall>y\<in>set pre. \<not> P y) \<and> P x)"
    proof
      assume "\<exists>pre post. xs = pre @ x # post \<and> (\<forall>y\<in>set pre. \<not> P y) \<and> P x"
      then obtain pre post where "xs = pre @ x # post" "\<forall>y\<in>set pre. \<not> P y" "P x" by blast
      with False have "a # xs = (a # pre) @ x # post \<and> (\<forall>y\<in>set (a # pre). \<not> P y) \<and> P x" by simp
      then show "\<exists>pre post. a # xs = pre @ x # post \<and> (\<forall>y\<in>set pre. \<not> P y) \<and> P x" by blast
    next
      assume "\<exists>pre post. a # xs = pre @ x # post \<and> (\<forall>y\<in>set pre. \<not> P y) \<and> P x"
      then obtain pre post where h: "a # xs = pre @ x # post" "\<forall>y\<in>set pre. \<not> P y" "P x" by blast
      with False obtain pre' where "pre = a # pre'" by (cases pre) auto
      with h have "xs = pre' @ x # post \<and> (\<forall>y\<in>set pre'. \<not> P y) \<and> P x" by simp
      then show "\<exists>pre post. xs = pre @ x # post \<and> (\<forall>y\<in>set pre. \<not> P y) \<and> P x" by blast
    qed
    with False Cons show ?thesis by simp
  qed
qed

lemma from_query_rest:
  "from_query className query rest =
     (case from_query className query None of Some x \<Rightarrow> Some x | None \<Rightarrow> rest)"
  by (simp add: from_query_def split: option.splits)

lemma from_item_rest:
  "from_item data rest = (case from_item data None of Some x \<Rightarrow> Some x | None \<Rightarrow> rest)"
  by (simp add: from_item_def split: option.splits)

lemma from_post_rest:
  "from_post data rest = (case from_post data None of Some x \<Rightarrow> Some x | None \<Rightarrow> rest)"
  by (simp add: from_post_def split: option.splits)

lemma first_match_single: "first_match [x] = x"
  by (cases x) simp_all

lemma last_assignment_wins:
  "from_query className query (from_item data (from_post data None)) =
   first_match [from_query className query None, from_item data None, from_post data None]"
proof (cases "from_query className query None")
  case (Some x)
  then show ?thesis
    by (subst from_query_rest) simp
next
  case no_query: None
  show ?thesis
  proof (cases "from_item data None")
    case (Some y)
    with no_query show ?thesis
      by (subst from_query_rest, subst from_item_rest) simp
  next
    case None
    with no_query show ?thesis
      by (subst from_query_rest, subst from_item_rest) (simp add: first_match_single)
  qed
qed

lemma canCreate_iff: "canCreate tokens = (\<exists>t\<in>set tokens. sr_isCreate t = Some True)"
proof -
  have "foldl (\<lambda>a b. a \<or> sr_isCreate b = Some True) acc tokens =
        (acc \<or> (\<exists>t\<in>set tokens. sr_isCreate t = Some True))" for acc
    by (induction tokens arbitrary: acc) auto
  then show ?thesis by (simp add: canCreate_def)
qed

text \<open>A call on a principal with a user, not the master, with nothing resolved or stored yet,
  in the custom mode: the call is the callback of the space pointer.\<close>

lemma custom_mode_call:
  assumes "user a = Some u" "\<not> isMaster a" "\<not> fetchedRoles a" "rolePromise a = None"
      and "getAllCustomRoles st = Resolved acRoles" "isNewRoleEnabled acRoles"
      and "getSpacePointer fuel st className data query restQuery
             (issue (Query ''UBRoleDefinition'' Where_all) a) = Some (Resolved spacePointer, a1)"
  shows "Auth_getUserRoles fuel st className data query restQuery a =
         getUserRoles_spacePointer fuel st u className data query acRoles spacePointer a1"
  using assms
  by (simp add: Auth_getUserRoles_def getUserRoles_enter_def getUserRoles_callbacks_def
      getUserRoles_acRoles_def)

lemma assign_rolePromise_fst:
  "map_option fst (assign_rolePromise r a) = map_option fst (r (a\<lparr>rolePromise := Some Pending\<rparr>))"
  by (simp add: assign_rolePromise_def split: option.splits prod.splits)

lemma loadCustomRoles_fst:
  assumes "queryByClassName (execute st ''UBClassRoomUser'' (Where_user_classRoom (user_id u) sp)
             (find_memberships st (user_id u) sp)) = Resolved results"
  shows "fst (loadCustomRoles st u uRoles classRoles className sp create a) =
     (if results = [] then Rejected (not_allowed_space u sp)
      else if create \<and> \<not> canCreate (flattenUserClassRoles classRoles className results)
      then Rejected (not_allowed_create u className)
      else Resolved (filterDuplication (map sr_role (flattenUserClassRoles classRoles className results)) @ uRoles))"
  using assms by (simp add: loadCustomRoles_def Let_def)

lemma scoped_call_fst:
  assumes "getClassRoles acRoles className \<noteq> []"
  shows "map_option fst (getUserRoles_spacePointer fuel st u className data query acRoles (Some sp) a) =
         Some (fst (loadCustomRoles st u
                (transformUserRoles (getUserRoles acRoles (user_userRoles u) (user_id u)))
                (getClassRoles acRoles className) className sp (isCreateRequest data query)
                (a\<lparr>rolePromise := Some Pending\<rparr>)))"
  using assms by (simp add: getUserRoles_spacePointer_def Let_def assign_rolePromise_fst)

subsection \<open>The example deployment\<close>

lemma ex_new_Auth:
  "user (new_Auth False (Some alice)) = Some alice" "\<not> isMaster (new_Auth False (Some alice))"
  "\<not> fetchedRoles (new_Auth False (Some alice))" "rolePromise (new_Auth False (Some alice)) = None"
  by (simp_all add: new_Auth_def)

lemma ex_custom_mode:
  "getAllCustomRoles ex_store = Resolved ex_definitions" "isNewRoleEnabled ex_definitions"
  by (simp_all add: getAllCustomRoles_def isNewRoleEnabled_def ex_simps query_simps)

lemma ex_classRoles:
  "getClassRoles ex_definitions ''Post'' =
     [\<lparr>role = ''student'', permissions = [''Post-read'']\<rparr>,
      \<lparr>role = ''instructor'', permissions = [''Post-create'', ''Post-update'']\<rparr>]"
  by (simp add: getClassRoles_def hasStringInArray_def extractFirstWord_def ex_definitions_def)

lemma ex_memberships:
  "queryByClassName (execute ex_store ''UBClassRoomUser'' (Where_user_classRoom (user_id alice) space9)
     (find_memberships ex_store (user_id alice) space9)) = Resolved []"
  "queryByClassName (execute ex_store ''UBClassRoomUser'' (Where_user_classRoom (user_id alice) space1)
     (find_memberships ex_store (user_id alice) space1)) =
     Resolved [\<lparr>m_user = ''u1'', m_classRoom = space1, m_role = ''student''\<rparr>]"
  "queryByClassName (execute ex_store ''UBClassRoomUser'' (Where_user_classRoom (user_id alice) space2)
     (find_memberships ex_store (user_id alice) space2)) =
     Resolved [\<lparr>m_user = ''u1'', m_classRoom = space2, m_role = ''instructor''\<rparr>]"
  by (simp_all add: ex_simps query_simps space9_def)

lemma ex_student_tokens:
  "flattenUserClassRoles (getClassRoles ex_definitions ''Post'') ''Post''
     [\<lparr>m_user = ''u1'', m_classRoom = space1, m_role = ''student''\<rparr>] =
   [\<lparr>sr_role = ''role:Post-s1-read'', sr_isCreate = Some False\<rparr>]"
  by (simp add: ex_classRoles flattenUserClassRoles_def flattenArray_def removeEmptyValue_def
      List.map_filter_def transfromClassRoles_def transfromClassRole_def destructure2_def
      roleMap_def template_def space1_def)

text \<open>The definitions of the helpers and of the entry point, for evaluation.\<close>

lemmas helper_simps = getClassRoles_def hasStringInArray_def extractFirstWord_def getUserRoles_def
  transformUserRoles_def transformUserRole_def filterDuplication_def flattenArray_def
  removeEmptyValue_def List.map_filter_def transfromClassRoles_def transfromClassRole_def
  destructure2_def roleMap_def inherited_def template_def truthy_def isNewRoleEnabled_def

lemmas call_simps = Auth_getUserRoles_def getUserRoles_enter_def getUserRoles_callbacks_def
  getUserRoles_acRoles_def getUserRoles_spacePointer_def getAllCustomRoles_def getSpacePointer_def
  queryToSpace_from_def from_query_def from_item_def from_post_def assign_rolePromise_def
  loadCustomRoles_def flattenUserClassRoles_def canCreate_def isCreateRequest_def
  not_allowed_space_def not_allowed_create_def OPERATION_FORBIDDEN_def

subsection \<open>What a resolution changes of the principal\<close>

lemma untouched_refl: "untouched a a"
  by (simp add: untouched_def)

lemma untouched_trans: "untouched a b \<Longrightarrow> untouched b c \<Longrightarrow> untouched a c"
  by (simp add: untouched_def)

lemma untouched_issue: "untouched a (issue x a)"
  by (simp add: untouched_def issue_def)

lemma queryByClassName_not_Rejected: "queryByClassName p \<noteq> Rejected e"
  by (simp add: queryByClassName_def split: promise.splits)

lemma queryToSpace_untouched:
  "queryToSpace fuel st oid className a = Some (p, a') \<Longrightarrow> untouched a a' \<and> p \<noteq> Rejected e"
proof (induction fuel st oid className a rule: queryToSpace.induct)
  case (1 st oid className a)
  then show ?case by simp
next
  case (2 fuel st oid className a)
  then show ?case
    using untouched_issue[of a "Query className (Where_objectId oid)"]
    by (auto simp: Let_def queryByClassName_not_Rejected
        split: promise.splits list.splits option.splits if_splits
        intro: untouched_trans)
qed

lemma getSpacePointer_untouched:
  "getSpacePointer fuel st className data query restQuery a = Some (p, a') \<Longrightarrow>
   untouched a a' \<and> p \<noteq> Rejected e"
  using queryToSpace_untouched
  by (auto simp: getSpacePointer_def queryToSpace_from_def untouched_refl
      split: option.splits if_splits prod.splits)

lemma walk_untouched:
  "getAllRolesNamesForRoleIds fuel st roleIDs names queriedRoles a = Some (p, a') \<Longrightarrow> untouched a a'"
proof (induction fuel arbitrary: roleIDs names queriedRoles a p a')
  case 0
  then show ?case by simp
next
  case (Suc fuel)
  let ?ins = "filter (\<lambda>roleID. roleID \<notin> queriedRoles) roleIDs"
  let ?restWhere = "case ?ins of [roleID] \<Rightarrow> Where_roles roleID | _ \<Rightarrow> Where_roles_in ?ins"
  let ?a1 = "issue (Query ''_Role'' ?restWhere) a"
  have a1: "untouched a ?a1" by (rule untouched_issue)
  show ?case
  proof (cases "?ins = []")
    case True
    with Suc.prems show ?thesis
      by (simp add: untouched_refl)
  next
    case False
    show ?thesis
    proof (cases "execute st ''_Role'' ?restWhere (find_roles st ?restWhere)")
      case (Resolved results)
      show ?thesis
      proof (cases "results = []")
        case True
        with Suc.prems False Resolved a1 show ?thesis
          by (simp add: Let_def)
      next
        case nonempty: False
        from Suc.prems False Resolved nonempty
        obtain q a2 where rec: "getAllRolesNamesForRoleIds fuel st (map r_objectId results)
            (names @ map r_name results) (mark ?ins queriedRoles) ?a1 = Some (q, a2)"
          by (auto simp: Let_def split: option.splits)
        from Suc.IH[OF rec] have "untouched ?a1 a2" .
        with a1 have "untouched a a2" by (rule untouched_trans)
        moreover from Suc.prems False Resolved nonempty rec have "a' = a2"
          by (simp add: Let_def split: promise.splits)
        ultimately show ?thesis by simp
      qed
    next
      case (Rejected e)
      with Suc.prems False a1 show ?thesis
        by (simp add: Let_def)
    next
      case Pending
      with Suc.prems False a1 show ?thesis
        by (simp add: Let_def)
    qed
  qed
qed

lemma untouchedD:
  "untouched a a' \<Longrightarrow>
   isMaster a' = isMaster a \<and> user a' = user a \<and> userRoles a' = userRoles a \<and>
   fetchedRoles a' = fetchedRoles a \<and> rolePromise a' = rolePromise a \<and>
   role_cache a' = role_cache a"
  by (simp add: untouched_def)


lemma loadCustomRoles_Resolved:
  "loadCustomRoles st u uRoles classRoles className sp create a = (Resolved tokens, a') \<Longrightarrow>
   same_principal a a' \<and> fetchedRoles a' \<and> userRoles a' = tokens \<and> rolePromise a' = None"
  by (auto simp: loadCustomRoles_def Let_def same_principal_def issue_def
      split: promise.splits if_splits)

lemma cache_put_fields:
  "isMaster (cache_put k v a) = isMaster a" "user (cache_put k v a) = user a"
  "userRoles (cache_put k v a) = userRoles a" "fetchedRoles (cache_put k v a) = fetchedRoles a"
  "rolePromise (cache_put k v a) = rolePromise a"
  by (simp_all add: cache_put_def issue_def)

text \<open>The ways \<^verbatim>\<open>_loadRoles\<close> goes.\<close>

lemma loadRoles_cases:
  fixes fuel st u uRoles a
  defines "a1 \<equiv> issue (Cache_get (user_id u)) a"
  defines "a2 \<equiv> issue (Query ''_Role'' (Where_users (user_id u))) a1"
  defines "found \<equiv> execute st ''_Role'' (Where_users (user_id u)) (find_roles st (Where_users (user_id u)))"
  obtains
    (cached) cachedRoles where "map_of (role_cache a) (user_id u) = Some cachedRoles"
      "loadRoles fuel st u uRoles a =
         Some (Resolved cachedRoles, a1\<lparr>fetchedRoles := True, userRoles := cachedRoles\<rparr>)"
  | (failed) p where "\<forall>tokens. p \<noteq> Resolved tokens" "loadRoles fuel st u uRoles a = Some (p, a2)"
  | (no_roles) "loadRoles fuel st u uRoles a =
        Some (Resolved [],
          cache_put (user_id u) [] (a2\<lparr>userRoles := [], fetchedRoles := True, rolePromise := None\<rparr>))"
  | (unended) "loadRoles fuel st u uRoles a = None"
  | (walked) ids names p a3 where "getAllRolesNamesForRoleIds fuel st ids names {} a2 = Some (p, a3)"
      "\<forall>tokens. p \<noteq> Resolved tokens" "loadRoles fuel st u uRoles a = Some (p, a3)"
  | (resolved) ids names roleNames a3 where
      "getAllRolesNamesForRoleIds fuel st ids names {} a2 = Some (Resolved roleNames, a3)"
      "loadRoles fuel st u uRoles a =
        Some (Resolved (map ((@) ''role:'') roleNames @ uRoles),
         cache_put (user_id u) (map ((@) ''role:'') roleNames @ uRoles)
           (a3\<lparr>userRoles := map ((@) ''role:'') roleNames @ uRoles,
               fetchedRoles := True, rolePromise := None\<rparr>))"
proof (cases "map_of (role_cache a) (user_id u)")
  case (Some cachedRoles)
  then have "loadRoles fuel st u uRoles a =
      Some (Resolved cachedRoles, a1\<lparr>fetchedRoles := True, userRoles := cachedRoles\<rparr>)"
    by (simp add: loadRoles_def a1_def issue_def)
  with Some show ?thesis by (rule cached)
next
  case None
  then have miss: "map_of (role_cache a1) (user_id u) = None"
    by (simp add: a1_def issue_def)
  show ?thesis
  proof (cases found)
    case (Rejected e)
    with miss have "loadRoles fuel st u uRoles a = Some (Rejected e, a2)"
      by (simp add: loadRoles_def Let_def a1_def[symmetric] a2_def[symmetric] found_def[symmetric])
    then show ?thesis using failed[of "Rejected e"] by simp
  next
    case Pending
    with miss have "loadRoles fuel st u uRoles a = Some (Pending, a2)"
      by (simp add: loadRoles_def Let_def a1_def[symmetric] a2_def[symmetric] found_def[symmetric])
    then show ?thesis using failed[of Pending] by simp
  next
    case (Resolved results)
    show ?thesis
    proof (cases "results = []")
      case True
      with miss Resolved have "loadRoles fuel st u uRoles a =
        Some (Resolved [],
          cache_put (user_id u) [] (a2\<lparr>userRoles := [], fetchedRoles := True, rolePromise := None\<rparr>))"
        by (simp add: loadRoles_def Let_def a1_def[symmetric] a2_def[symmetric] found_def[symmetric]
            cache_put_fields)
      then show ?thesis by (rule no_roles)
    next
      case False
      show ?thesis
      proof (cases "getAllRolesNamesForRoleIds fuel st (map r_objectId results) (map r_name results) {} a2")
        case no_end: None
        with miss \<open>found = Resolved results\<close> False
        have "loadRoles fuel st u uRoles a = None"
          by (simp add: loadRoles_def Let_def a1_def[symmetric] a2_def[symmetric] found_def[symmetric])
        then show ?thesis by (rule unended)
      next
        case (Some result)
        then obtain p a3 where walk: "getAllRolesNamesForRoleIds fuel st (map r_objectId results)
            (map r_name results) {} a2 = Some (p, a3)"
          by (cases result) auto
        show ?thesis
        proof (cases p)
          case (Resolved roleNames)
          with miss \<open>found = Resolved results\<close> False walk
          have "loadRoles fuel st u uRoles a =
            Some (Resolved (map ((@) ''role:'') roleNames @ uRoles),
             cache_put (user_id u) (map ((@) ''role:'') roleNames @ uRoles)
               (a3\<lparr>userRoles := map ((@) ''role:'') roleNames @ uRoles,
                   fetchedRoles := True, rolePromise := None\<rparr>))"
            by (simp add: loadRoles_def Let_def a1_def[symmetric] a2_def[symmetric] found_def[symmetric]
                cache_put_fields)
          with walk Resolved show ?thesis using resolved by simp
        next
          case (Rejected e)
          with miss \<open>found = Resolved results\<close> False walk
          have "loadRoles fuel st u uRoles a = Some (p, a3)"
            by (simp add: loadRoles_def Let_def a1_def[symmetric] a2_def[symmetric] found_def[symmetric])
          with walk Rejected show ?thesis using walked by simp
        next
          case Pending
          with miss \<open>found = Resolved results\<close> False walk
          have "loadRoles fuel st u uRoles a = Some (p, a3)"
            by (simp add: loadRoles_def Let_def a1_def[symmetric] a2_def[symmetric] found_def[symmetric])
          with walk Pending show ?thesis using walked by simp
        qed
      qed
    qed
  qed
qed


lemma loadRoles_Resolved:
  assumes "loadRoles fuel st u uRoles a = Some (Resolved tokens, a')"
  shows "same_principal a a' \<and> fetchedRoles a' \<and> userRoles a' = tokens"
proof -
  let ?a1 = "issue (Cache_get (user_id u)) a"
  let ?a2 = "issue (Query ''_Role'' (Where_users (user_id u))) ?a1"
  have a2: "untouched a ?a2"
    using untouched_issue untouched_trans by blast
  show ?thesis
  proof (cases rule: loadRoles_cases[where fuel = fuel and st = st and u = u and uRoles = uRoles and a = a])
    case (cached cachedRoles)
    with assms show ?thesis by (auto simp: same_principal_def issue_def)
  next
    case (failed q)
    with assms show ?thesis by auto
  next
    case no_roles
    with assms show ?thesis by (auto simp: same_principal_def issue_def cache_put_fields)
  next
    case unended
    with assms show ?thesis by simp
  next
    case (walked ids names q a3)
    with assms show ?thesis by auto
  next
    case (resolved ids names roleNames a3)
    from walk_untouched[OF resolved(1)] a2 have "untouched a a3" by (rule untouched_trans[rotated])
    then have "isMaster a3 = isMaster a" "user a3 = user a" by (simp_all add: untouched_def)
    with resolved(2) assms show ?thesis by (auto simp: same_principal_def cache_put_fields)
  qed
qed


lemma resolver_Resolved:
  "resolver r \<Longrightarrow> r a = Some (Resolved tokens, a') \<Longrightarrow>
   same_principal a a' \<and> fetchedRoles a' \<and> userRoles a' = tokens"
  using loadCustomRoles_Resolved loadRoles_Resolved by (auto simp: resolver_def)


lemma assign_Resolved:
  assumes "resolver r" "assign_rolePromise r a = Some (Resolved tokens, a')"
  shows "same_principal a a' \<and> fetchedRoles a' \<and> userRoles a' = tokens"
proof -
  from assms(2) obtain q b where run: "r (a\<lparr>rolePromise := Some Pending\<rparr>) = Some (q, b)"
    by (auto simp: assign_rolePromise_def split: option.splits)
  with assms(2) have q: "q = Resolved tokens"
    by (simp add: assign_rolePromise_def)
  from resolver_Resolved[OF assms(1) run[unfolded q]]
  have b: "same_principal (a\<lparr>rolePromise := Some Pending\<rparr>) b" "fetchedRoles b" "userRoles b = tokens"
    by simp_all
  from assms(2) run have "a' = b \<or> a' = b\<lparr>rolePromise := Some q\<rparr>"
    by (auto simp: assign_rolePromise_def split: option.splits)
  with b show ?thesis by (auto simp: same_principal_def)
qed

lemma resolver_loadCustomRoles:
  "resolver (Some \<circ> loadCustomRoles st u uRoles classRoles className sp create)"
  unfolding resolver_def by blast

lemma resolver_loadRoles: "resolver (loadRoles fuel st u uRoles)"
  unfolding resolver_def by blast

text \<open>A call that starts a resolution: the ways it goes once the definitions have come.\<close>

lemma started_call:
  assumes "user a = Some u" "\<not> isMaster a" "\<not> fetchedRoles a" "rolePromise a = None"
  shows "Auth_getUserRoles fuel st className data query restQuery a =
     (case getAllCustomRoles st of
        Resolved acRoles \<Rightarrow>
          getUserRoles_acRoles fuel st u className data query restQuery acRoles
            (issue (Query ''UBRoleDefinition'' Where_all) a)
      | Rejected e \<Rightarrow> Some (Rejected e, issue (Query ''UBRoleDefinition'' Where_all) a)
      | Pending \<Rightarrow> Some (Pending, issue (Query ''UBRoleDefinition'' Where_all) a))"
  using assms
  by (simp add: Auth_getUserRoles_def getUserRoles_enter_def getUserRoles_callbacks_def)

lemma returned_call:
  assumes "getUserRoles_enter a = (Returned p, a1)"
  shows "a1 = a \<and> Auth_getUserRoles fuel st className data query restQuery a = Some (p, a)"
  using assms
  by (auto simp: Auth_getUserRoles_def getUserRoles_enter_def getUserRoles_callbacks_def
      split: option.splits if_splits)


lemma memoized_returned:
  assumes "user a = Some u" "\<not> isMaster a" "fetchedRoles a"
  shows "Auth_getUserRoles fuel st className data query restQuery a = Some (Resolved (userRoles a), a)"
  using assms
  by (simp add: Auth_getUserRoles_def getUserRoles_enter_def getUserRoles_callbacks_def)

text \<open>Every call either returns at once, or ends before a resolver was chosen, or is the
  result of a resolver whose promise it has stored.\<close>

lemma call_cases:
  assumes "Auth_getUserRoles fuel st className data query restQuery a = Some (p, a')"
  obtains
    (returned) "a' = a" "getUserRoles_enter a = (Returned p, a)"
  | (early) u where "user a = Some u" "\<not> isMaster a" "\<not> fetchedRoles a" "rolePromise a = None"
      "untouched a a'" "p = Pending \<or> p = Rejected (not_allowed_create u className)"
  | (resolved) u r b where "user a = Some u" "\<not> isMaster a" "\<not> fetchedRoles a"
      "rolePromise a = None" "untouched a b" "resolver r" "assign_rolePromise r b = Some (p, a')"
proof (cases "getUserRoles_enter a")
  case (Pair c a1)
  show ?thesis
  proof (cases c)
    case (Returned q)
    with Pair assms returned_call[of a q a1 fuel st className data query restQuery]
    show ?thesis using returned by auto
  next
    case (Started u)
    with Pair have fresh: "user a = Some u" "\<not> isMaster a" "\<not> fetchedRoles a" "rolePromise a = None"
      by (auto simp: getUserRoles_enter_def split: option.splits if_splits)
    let ?a1 = "issue (Query ''UBRoleDefinition'' Where_all) a"
    have a1: "untouched a ?a1" by (rule untouched_issue)
    note call = started_call[OF fresh, of fuel st className data query restQuery]
    show ?thesis
    proof (cases "getAllCustomRoles st")
      case (Rejected e)
      then show ?thesis
        by (simp add: getAllCustomRoles_def queryByClassName_not_Rejected)
    next
      case Pending
      with call assms have "p = Pending" "a' = ?a1" by simp_all
      with fresh a1 show ?thesis using early by simp
    next
      case (Resolved acRoles)
      with call assms have ac: "getUserRoles_acRoles fuel st u className data query restQuery acRoles ?a1 =
          Some (p, a')" by simp
      show ?thesis
      proof (cases "isNewRoleEnabled acRoles")
        case False
        with ac have "assign_rolePromise (loadRoles fuel st u []) ?a1 = Some (p, a')"
          by (simp add: getUserRoles_acRoles_def)
        with fresh a1 resolver_loadRoles show ?thesis using resolved by blast
      next
        case True
        with ac obtain q a2 where sp: "getSpacePointer fuel st className data query restQuery ?a1 =
            Some (q, a2)"
          by (auto simp: getUserRoles_acRoles_def split: option.splits)
        from getSpacePointer_untouched[OF sp] a1 have a2: "untouched a a2"
          using untouched_trans by blast
        show ?thesis
        proof (cases q)
          case (Rejected e)
          with getSpacePointer_untouched[OF sp, of e] show ?thesis by simp
        next
          case Pending
          with ac True sp have "p = Pending" "a' = a2"
            by (simp_all add: getUserRoles_acRoles_def)
          with fresh a2 show ?thesis using early by simp
        next
          case (Resolved spacePointer)
          with ac True sp have run: "getUserRoles_spacePointer fuel st u className data query acRoles
              spacePointer a2 = Some (p, a')"
            by (simp add: getUserRoles_acRoles_def)
          let ?classRoles = "getClassRoles acRoles className"
          let ?uRoles = "getUserRoles acRoles (user_userRoles u) (user_id u)"
          show ?thesis
          proof (cases "?classRoles \<noteq> [] \<and> spacePointer \<noteq> None")
            case True
            then obtain sp' where "spacePointer = Some sp'" by auto
            with True run have "assign_rolePromise
                (Some \<circ> loadCustomRoles st u (transformUserRoles ?uRoles) ?classRoles className sp'
                   (isCreateRequest data query)) a2 = Some (p, a')"
              by (simp add: getUserRoles_spacePointer_def Let_def)
            with fresh a2 resolver_loadCustomRoles show ?thesis using resolved by blast
          next
            case False
            then have fallback: "getUserRoles_spacePointer fuel st u className data query acRoles
                spacePointer a2 =
                (if isCreateRequest data query \<and> \<not> indexOf ?uRoles (className @ ''-create'') > - 1
                 then Some (Rejected (not_allowed_create u className), a2)
                 else assign_rolePromise (loadRoles fuel st u (transformUserRoles ?uRoles)) a2)"
              by (cases spacePointer; cases "?classRoles = []")
                 (simp_all add: getUserRoles_spacePointer_def Let_def)
            show ?thesis
            proof (cases "isCreateRequest data query \<and> \<not> indexOf ?uRoles (className @ ''-create'') > - 1")
              case True
              with fallback run have "p = Rejected (not_allowed_create u className)" "a' = a2"
                by simp_all
              with fresh a2 show ?thesis using early by simp
            next
              case False
              with fallback run
              have "assign_rolePromise (loadRoles fuel st u (transformUserRoles ?uRoles)) a2 = Some (p, a')"
                by simp
              with fresh a2 resolver_loadRoles show ?thesis using resolved by blast
            qed
          qed
        qed
      qed
    qed
  qed
qed


lemma memoized_after_success:
  assumes "Auth_getUserRoles fuel st className data query restQuery a = Some (Resolved tokens, a')"
  shows "Auth_getUserRoles fuel2 st2 className2 data2 query2 restQuery2 a' = Some (Resolved tokens, a')"
  using assms
proof (cases rule: call_cases)
  case returned
  with returned_call[OF returned(2)] show ?thesis by simp
next
  case (early u)
  then show ?thesis by simp
next
  case (resolved u r b)
  from assign_Resolved[OF resolved(6,7)] resolved(1,2,5)
  have "user a' = Some u" "\<not> isMaster a'" "fetchedRoles a'" "userRoles a' = tokens"
    by (simp_all add: same_principal_def untouched_def)
  with memoized_returned[of a' u fuel2 st2 className2 data2 query2 restQuery2] show ?thesis
    by simp
qed

subsection \<open>The walk over the parent roles\<close>

lemma Set_spread_fold:
  "set (fold (\<lambda>x acc. if x \<in> set acc then acc else acc @ [x]) xs acc) = set acc \<union> set xs \<and>
   (distinct acc \<longrightarrow> distinct (fold (\<lambda>x acc. if x \<in> set acc then acc else acc @ [x]) xs acc))"
  by (induction xs arbitrary: acc) auto

lemma set_Set_spread: "set (Set_spread xs) = set xs"
  using Set_spread_fold[of xs "[]"] by (simp add: Set_spread_def)

lemma distinct_Set_spread: "distinct (Set_spread xs)"
  using Set_spread_fold[of xs "[]"] by (simp add: Set_spread_def)

lemma unvisited_parents_all: "unvisited_parents st I {} = parent_roles st I"
proof (rule set_eqI, rule iffI)
  fix r assume "r \<in> unvisited_parents st I {}"
  then show "r \<in> parent_roles st I"
    by induction (auto intro: parent_roles.intros)
next
  fix r assume "r \<in> parent_roles st I"
  then show "r \<in> unvisited_parents st I {}"
    by induction (auto intro: unvisited_parents.intros)
qed

lemma unvisited_parents_none:
  assumes "\<forall>r\<in>set (Role st). (I - Q) \<inter> set (r_roles r) = {}"
  shows "unvisited_parents st I Q = {}"
proof -
  have False if "r \<in> unvisited_parents st I Q" for r
    using that assms by induction auto
  then show ?thesis by auto
qed

lemma unvisited_parents_round:
  assumes R1: "R1 = {r \<in> set (Role st). (I - Q) \<inter> set (r_roles r) \<noteq> {}}"
  shows "unvisited_parents st I Q = R1 \<union> unvisited_parents st (r_objectId ` R1) (Q \<union> (I - Q))"
proof (rule set_eqI, rule iffI)
  fix r assume "r \<in> unvisited_parents st I Q"
  then show "r \<in> R1 \<union> unvisited_parents st (r_objectId ` R1) (Q \<union> (I - Q))"
  proof induction
    case (first i r)
    then show ?case using R1 by auto
  next
    case (further r' r)
    show ?case
    proof (cases "r_objectId r' \<in> I")
      case True
      with further R1 show ?thesis by auto
    next
      case False
      with further(2) have fresh: "r_objectId r' \<notin> Q \<union> (I - Q)" by simp
      from further(5) show ?thesis
      proof
        assume "r' \<in> R1"
        then have "r_objectId r' \<in> r_objectId ` R1" by simp
        from unvisited_parents.first[OF this fresh further(3,4)] show ?thesis by simp
      next
        assume "r' \<in> unvisited_parents st (r_objectId ` R1) (Q \<union> (I - Q))"
        from unvisited_parents.further[OF this fresh further(3,4)] show ?thesis by simp
      qed
    qed
  qed
next
  fix r assume "r \<in> R1 \<union> unvisited_parents st (r_objectId ` R1) (Q \<union> (I - Q))"
  then show "r \<in> unvisited_parents st I Q"
  proof
    assume "r \<in> R1"
    with R1 obtain i where "i \<in> I" "i \<notin> Q" "r \<in> set (Role st)" "i \<in> set (r_roles r)" by auto
    then show ?thesis by (rule unvisited_parents.first)
  next
    assume "r \<in> unvisited_parents st (r_objectId ` R1) (Q \<union> (I - Q))"
    then show ?thesis
    proof induction
      case (first i r)
      then obtain r' where r': "r' \<in> R1" "i = r_objectId r'" by auto
      with R1 obtain j where "j \<in> I" "j \<notin> Q" "r' \<in> set (Role st)" "j \<in> set (r_roles r')" by auto
      then have "r' \<in> unvisited_parents st I Q" by (rule unvisited_parents.first)
      moreover from first r' have "r_objectId r' \<notin> Q" "r_objectId r' \<in> set (r_roles r)" by auto
      ultimately show ?case using first(3) by (auto intro: unvisited_parents.further)
    next
      case (further r' r)
      then show ?case by (auto intro: unvisited_parents.further)
    qed
  qed
qed


lemma find_roles_round:
  assumes "ins \<noteq> []"
  shows "set (find_roles st (case ins of [roleID] \<Rightarrow> Where_roles roleID | _ \<Rightarrow> Where_roles_in ins)) =
         {r \<in> set (Role st). set ins \<inter> set (r_roles r) \<noteq> {}}"
proof (cases ins)
  case Nil
  with assms show ?thesis by simp
next
  case (Cons i rest)
  then show ?thesis
    by (cases rest) (auto simp: find_roles_def)
qed

lemma round_ids_query:
  assumes "ins \<noteq> []"
  shows "round_ids (Query className (case ins of [roleID] \<Rightarrow> Where_roles roleID | _ \<Rightarrow> Where_roles_in ins)) = ins"
proof (cases ins)
  case Nil
  with assms show ?thesis by simp
next
  case (Cons i rest)
  then show ?thesis by (cases rest) auto
qed

lemma log_nothing: "a\<lparr>io_log := io_log a @ []\<rparr> = a"
  by simp

lemma log_more: "(issue x a)\<lparr>io_log := io_log (issue x a) @ new\<rparr> = a\<lparr>io_log := io_log a @ x # new\<rparr>"
  by (simp add: issue_def)

lemma execute_results_in_store:
  "execute st cls wh (find_roles st wh) = Resolved results \<Longrightarrow>
   set (map r_objectId results) \<subseteq> role_ids st"
  by (auto simp: execute_def find_roles_def role_ids_def split: option.splits)

lemma mark_plain: "''__proto__'' \<notin> set ins \<Longrightarrow> mark ins Q = Q \<union> set ins"
  by (auto simp: mark_def)

lemma walk_measure_bound: "walk_measure st roleIDs Q \<le> 2 * length (Role st) + 1"
proof -
  have "card (role_ids st - Q) \<le> card (role_ids st)"
    by (rule card_mono) (auto simp: role_ids_def)
  also have "\<dots> \<le> length (Role st)"
    unfolding role_ids_def by (metis card_image_le card_length le_trans List.finite_set)
  finally show ?thesis by (simp add: walk_measure_def)
qed

lemma walk_decreases:
  assumes ins: "ins = filter (\<lambda>roleID. roleID \<notin> Q) roleIDs" "ins \<noteq> []"
      and sub: "set ids' \<subseteq> role_ids st"
  shows "walk_measure st ids' (Q \<union> set ins) < walk_measure st roleIDs Q"
proof (cases "set ins \<inter> role_ids st = {}")
  case True
  from ins(2) obtain i where i: "i \<in> set ins" by (meson last_in_set)
  with True have "i \<notin> role_ids st" by auto
  moreover from i ins have "i \<in> set roleIDs" by auto
  ultimately have "\<not> set roleIDs \<subseteq> role_ids st" by auto
  moreover from True have "role_ids st - (Q \<union> set ins) = role_ids st - Q" by auto
  ultimately show ?thesis using sub by (simp add: walk_measure_def)
next
  case False
  then obtain i where i: "i \<in> set ins" "i \<in> role_ids st" by auto
  with ins have "i \<notin> Q" by auto
  have fin: "finite (role_ids st - Q)" by (simp add: role_ids_def)
  have "role_ids st - (Q \<union> set ins) \<subset> role_ids st - Q"
    using i \<open>i \<notin> Q\<close> by auto
  then have "card (role_ids st - (Q \<union> set ins)) < card (role_ids st - Q)"
    using fin by (rule psubset_card_mono[rotated])
  then show ?thesis using sub by (simp add: walk_measure_def)
qed

text \<open>On a store that answers and has no role of the id \<^verbatim>\<open>__proto__\<close>, a walk with enough
  fuel ends, with the names of all the parents, each once, and no id asked for twice.\<close>

lemma walk_result:
  assumes "\<forall>restWhere. rejects st ''_Role'' restWhere = None" "''__proto__'' \<notin> role_ids st"
  shows "''__proto__'' \<notin> set roleIDs \<Longrightarrow> walk_measure st roleIDs queriedRoles < fuel \<Longrightarrow>
         \<exists>names' new.
           getAllRolesNamesForRoleIds fuel st roleIDs names queriedRoles a =
             Some (Resolved names', a\<lparr>io_log := io_log a @ new\<rparr>) \<and>
           distinct names' \<and>
           set names' = set names \<union> r_name ` unvisited_parents st (set roleIDs) queriedRoles \<and>
           never_again queriedRoles (map round_ids new)"
proof (induction fuel arbitrary: roleIDs names queriedRoles a)
  case 0
  then show ?case by simp
next
  case (Suc fuel)
  let ?ins = "filter (\<lambda>roleID. roleID \<notin> queriedRoles) roleIDs"
  let ?restWhere = "case ?ins of [roleID] \<Rightarrow> Where_roles roleID | _ \<Rightarrow> Where_roles_in ?ins"
  let ?a1 = "issue (Query ''_Role'' ?restWhere) a"
  let ?results = "find_roles st ?restWhere"
  let ?R1 = "{r \<in> set (Role st). (set roleIDs - queriedRoles) \<inter> set (r_roles r) \<noteq> {}}"
  have ins: "set ?ins = set roleIDs - queriedRoles" by auto
  have answered: "execute st ''_Role'' ?restWhere ?results = Resolved ?results"
    using assms(1) by (simp add: execute_def)
  have marked: "mark ?ins queriedRoles = queriedRoles \<union> set ?ins"
    using Suc.prems(1) by (intro mark_plain) auto
  show ?case
  proof (cases "?ins = []")
    case True
    with ins have "set roleIDs - queriedRoles = {}"
      by (metis set_empty2)
    then have "\<forall>r\<in>set (Role st). (set roleIDs - queriedRoles) \<inter> set (r_roles r) = {}"
      by blast
    then have none: "unvisited_parents st (set roleIDs) queriedRoles = {}"
      by (rule unvisited_parents_none)
    have "getAllRolesNamesForRoleIds (Suc fuel) st roleIDs names queriedRoles a =
        Some (Resolved (Set_spread names), a\<lparr>io_log := io_log a @ []\<rparr>)"
      using True by simp
    moreover have "never_again queriedRoles (map round_ids [])" by simp
    ultimately show ?thesis
      using none distinct_Set_spread[of names] set_Set_spread[of names] by blast
  next
    case False
    have found: "set ?results = ?R1"
      using find_roles_round[OF False, of st] ins by simp
    have asked: "round_ids (Query ''_Role'' ?restWhere) = ?ins"
      using False by (rule round_ids_query)
    have fresh: "set ?ins \<inter> queriedRoles = {}" by auto
    show ?thesis
    proof (cases "?results = []")
      case True
      with found have "\<forall>r\<in>set (Role st). (set roleIDs - queriedRoles) \<inter> set (r_roles r) = {}"
        by auto
      then have none: "unvisited_parents st (set roleIDs) queriedRoles = {}"
        by (rule unvisited_parents_none)
      have "getAllRolesNamesForRoleIds (Suc fuel) st roleIDs names queriedRoles a =
          Some (Resolved (Set_spread names), a\<lparr>io_log := io_log a @ [Query ''_Role'' ?restWhere]\<rparr>)"
        using False True answered
        by (simp add: Let_def issue_def)
      moreover have "never_again queriedRoles (map round_ids [Query ''_Role'' ?restWhere])"
        using asked fresh by simp
      ultimately show ?thesis
        using none distinct_Set_spread[of names] set_Set_spread[of names] by blast
    next
      case nonempty: False
      have stored: "set (map r_objectId ?results) \<subseteq> role_ids st"
        using answered by (rule execute_results_in_store)
      with assms(2) have no_proto: "''__proto__'' \<notin> set (map r_objectId ?results)"
        by blast
      have "walk_measure st (map r_objectId ?results) (queriedRoles \<union> set ?ins) <
            walk_measure st roleIDs queriedRoles"
        using refl False stored by (rule walk_decreases)
      with Suc.prems(2)
      have enough: "walk_measure st (map r_objectId ?results) (queriedRoles \<union> set ?ins) < fuel"
        by simp
      from Suc.IH[OF no_proto enough, of "names @ map r_name ?results" ?a1]
      obtain ns new where rec: "getAllRolesNamesForRoleIds fuel st (map r_objectId ?results)
            (names @ map r_name ?results) (queriedRoles \<union> set ?ins) ?a1 =
            Some (Resolved ns, ?a1\<lparr>io_log := io_log ?a1 @ new\<rparr>)"
        and ns: "set ns = set (names @ map r_name ?results) \<union>
            r_name ` unvisited_parents st (set (map r_objectId ?results)) (queriedRoles \<union> set ?ins)"
        and later: "never_again (queriedRoles \<union> set ?ins) (map round_ids new)"
        by blast
      have "getAllRolesNamesForRoleIds (Suc fuel) st roleIDs names queriedRoles a =
          Some (Resolved (Set_spread ns), ?a1\<lparr>io_log := io_log ?a1 @ new\<rparr>)"
        using False nonempty answered rec marked
        by (simp add: Let_def)
      then have run: "getAllRolesNamesForRoleIds (Suc fuel) st roleIDs names queriedRoles a =
          Some (Resolved (Set_spread ns), a\<lparr>io_log := io_log a @ Query ''_Role'' ?restWhere # new\<rparr>)"
        by (simp only: log_more)
      have rounds: "never_again queriedRoles (map round_ids (Query ''_Role'' ?restWhere # new))"
        using asked fresh later by (simp add: Un_commute)
      have "unvisited_parents st (set roleIDs) queriedRoles =
          ?R1 \<union> unvisited_parents st (r_objectId ` ?R1) (queriedRoles \<union> (set roleIDs - queriedRoles))"
        by (rule unvisited_parents_round) simp
      with found ins ns
      have "set ns = set names \<union> r_name ` unvisited_parents st (set roleIDs) queriedRoles"
        by (simp add: image_Un Un_assoc)
      then have "set (Set_spread ns) =
          set names \<union> r_name ` unvisited_parents st (set roleIDs) queriedRoles"
        by (simp add: set_Set_spread)
      with run rounds distinct_Set_spread[of ns] show ?thesis by blast
    qed
  qed
qed

lemma walk_cycle_safe:
  assumes "\<forall>restWhere. rejects st ''_Role'' restWhere = None"
      and "''__proto__'' \<notin> role_ids st" "''__proto__'' \<notin> set roleIDs"
      and "2 * length (Role st) + 1 < fuel"
  shows "\<exists>names' new.
           getAllRolesNamesForRoleIds fuel st roleIDs names {} a =
             Some (Resolved names', a\<lparr>io_log := io_log a @ new\<rparr>) \<and>
           distinct names' \<and>
           set names' = set names \<union> r_name ` parent_roles st (set roleIDs) \<and>
           never_again {} (map round_ids new)"
proof -
  from walk_measure_bound[of st roleIDs "{}"] assms(4) have "walk_measure st roleIDs {} < fuel"
    by simp
  from walk_result[OF assms(1,2,3) this, of names a] show ?thesis
    by (simp add: unvisited_parents_all)
qed

section \<open>The claims\<close>

text \<open>
  C10 (implicit user-id token). When \<^verbatim>\<open>user.userRoles\<close> is not empty, the module function
  \<^verbatim>\<open>getUserRoles\<close> appends the raw user id to the flattened permissions before
  \<^verbatim>\<open>transformUserRoles\<close> runs, so the global token list contains the token built from the
  user id, which is \<^verbatim>\<open>role:<userId>\<close> when the id has no dash. When \<^verbatim>\<open>user.userRoles\<close> is
  empty or absent the global token list is empty.
\<close>

theorem implicit_user_id_token:
  "(uRoles = Some ur \<and> ur \<noteq> [] \<longrightarrow>
      getUserRoles allCustomRoles uRoles userId =
        concat (map permissions (filter (\<lambda>ac. role ac \<in> set ur) allCustomRoles)) @ [userId] \<and>
      transformUserRole userId \<in> set (transformUserRoles (getUserRoles allCustomRoles uRoles userId)) \<and>
      (CHR ''-'' \<notin> set userId \<longrightarrow>
         ''role:'' @ userId \<in> set (transformUserRoles (getUserRoles allCustomRoles uRoles userId)))) \<and>
   (uRoles = None \<or> uRoles = Some [] \<longrightarrow>
      transformUserRoles (getUserRoles allCustomRoles uRoles userId) = [])"
proof -
  have empty: "transformUserRoles [] = []"
    by (simp add: transformUserRoles_def filterDuplication_def)
  have shape: "getUserRoles allCustomRoles (Some ur) userId =
      concat (map permissions (filter (\<lambda>ac. role ac \<in> set ur) allCustomRoles)) @ [userId]"
    if "ur \<noteq> []"
    using that by (simp add: getUserRoles_def flattenArray_concat hasStringInArray_mem)
  have mem: "transformUserRole userId \<in>
      set (transformUserRoles (getUserRoles allCustomRoles (Some ur) userId))" if "ur \<noteq> []"
    using that by (simp add: shape transformUserRoles_def set_filterDuplication)
  show ?thesis
    using shape mem transformUserRole_plain[of userId]
    by (auto simp: getUserRoles_def empty)
qed


theorem implicit_user_id_token_witness:
  "''role:u1'' \<in> set (transformUserRoles (getUserRoles ex_definitions (Some [''student'']) ''u1'')) \<and>
   transformUserRoles (getUserRoles ex_definitions None ''u1'') = []"
proof -
  have nonempty: "Some [''student''] = Some [''student''] \<and> [''student''] \<noteq> []"
    by simp
  have no_dash: "CHR ''-'' \<notin> set ''u1''"
    by simp
  have absent: "None = None \<or> None = Some ([] :: string list)"
    by simp
  from implicit_user_id_token[of "Some [''student'']" "[''student'']" ex_definitions "''u1''"]
    nonempty no_dash
  have "''role:'' @ ''u1'' \<in> set (transformUserRoles (getUserRoles ex_definitions (Some [''student'']) ''u1''))"
    by blast
  then have "''role:u1'' \<in> set (transformUserRoles (getUserRoles ex_definitions (Some [''student'']) ''u1''))"
    by simp
  moreover from implicit_user_id_token[of None "[]" ex_definitions "''u1''"] absent
  have "transformUserRoles (getUserRoles ex_definitions None ''u1'') = []"
    by blast
  ultimately show ?thesis by blast
qed

text \<open>
  C2 (mode selection), as the code has it. The check reads the first definition whose role
  is \<^verbatim>\<open>root\<close>, and of its permissions only the first: custom mode is selected exactly
  when that definition exists and its first permission is \<^verbatim>\<open>all\<close>. A list with no
  definition of the role \<^verbatim>\<open>root\<close> selects the legacy mode, and in the legacy mode the
  callback stores and returns the promise of \<^verbatim>\<open>_loadRoles([])\<close>, the resolver of the role
  tree.

  The claim as stated asks for a definition whose permissions are exactly \<^verbatim>\<open>["all"]\<close>;
  the counterexample is a root definition with the permissions \<^verbatim>\<open>["all", "Post-read"]\<close>,
  which selects the custom mode.
\<close>

theorem mode_selection:
  "(isNewRoleEnabled acRoles =
      (\<exists>pre rootRole post rest.
          acRoles = pre @ rootRole # post \<and> (\<forall>ar\<in>set pre. role ar \<noteq> ''root'') \<and>
          role rootRole = ''root'' \<and> permissions rootRole = ''all'' # rest)) \<and>
   (\<not> isNewRoleEnabled acRoles \<longrightarrow>
      getUserRoles_acRoles fuel st u className data query restQuery acRoles a =
        assign_rolePromise (loadRoles fuel st u []) a) \<and>
   ((\<forall>ar\<in>set acRoles. role ar \<noteq> ''root'') \<longrightarrow> \<not> isNewRoleEnabled acRoles)"
proof -
  have main: "isNewRoleEnabled acRoles =
      (\<exists>pre rootRole post rest.
          acRoles = pre @ rootRole # post \<and> (\<forall>ar\<in>set pre. role ar \<noteq> ''root'') \<and>
          role rootRole = ''root'' \<and> permissions rootRole = ''all'' # rest)"
  proof (cases "find (\<lambda>ar. role ar = ''root'') acRoles")
    case None
    then have no_root: "\<forall>ar\<in>set acRoles. role ar \<noteq> ''root''"
      by (simp add: find_None_iff)
    have "\<not> (\<exists>pre rootRole post rest.
          acRoles = pre @ rootRole # post \<and> (\<forall>ar\<in>set pre. role ar \<noteq> ''root'') \<and>
          role rootRole = ''root'' \<and> permissions rootRole = ''all'' # rest)"
      using no_root by auto
    with None show ?thesis by (simp add: isNewRoleEnabled_def)
  next
    case (Some r)
    then obtain pre post where split: "acRoles = pre @ r # post"
        "\<forall>y\<in>set pre. role y \<noteq> ''root''" "role r = ''root''"
      using find_Some_split[of "\<lambda>ar. role ar = ''root''" acRoles r] by blast
    have enabled: "isNewRoleEnabled acRoles = (\<exists>rest. permissions r = ''all'' # rest)"
      using Some by (cases "permissions r") (auto simp: isNewRoleEnabled_def)
    have "(\<exists>pre' rootRole post' rest.
          acRoles = pre' @ rootRole # post' \<and> (\<forall>ar\<in>set pre'. role ar \<noteq> ''root'') \<and>
          role rootRole = ''root'' \<and> permissions rootRole = ''all'' # rest) =
          (\<exists>rest. permissions r = ''all'' # rest)"
    proof
      assume "\<exists>pre' rootRole post' rest.
          acRoles = pre' @ rootRole # post' \<and> (\<forall>ar\<in>set pre'. role ar \<noteq> ''root'') \<and>
          role rootRole = ''root'' \<and> permissions rootRole = ''all'' # rest"
      then obtain pre' rootRole post' rest where h: "acRoles = pre' @ rootRole # post'"
          "\<forall>ar\<in>set pre'. role ar \<noteq> ''root''" "role rootRole = ''root''"
          "permissions rootRole = ''all'' # rest" by blast
      then have "find (\<lambda>ar. role ar = ''root'') acRoles = Some rootRole"
        using find_Some_split[of "\<lambda>ar. role ar = ''root''" acRoles rootRole] by blast
      with Some have "rootRole = r" by simp
      with h show "\<exists>rest. permissions r = ''all'' # rest" by blast
    next
      assume "\<exists>rest. permissions r = ''all'' # rest"
      with split show "\<exists>pre' rootRole post' rest.
          acRoles = pre' @ rootRole # post' \<and> (\<forall>ar\<in>set pre'. role ar \<noteq> ''root'') \<and>
          role rootRole = ''root'' \<and> permissions rootRole = ''all'' # rest" by blast
    qed
    with enabled show ?thesis by simp
  qed
  have legacy: "\<not> isNewRoleEnabled acRoles \<longrightarrow>
      getUserRoles_acRoles fuel st u className data query restQuery acRoles a =
        assign_rolePromise (loadRoles fuel st u []) a"
    by (simp add: getUserRoles_acRoles_def)
  have no_root: "(\<forall>ar\<in>set acRoles. role ar \<noteq> ''root'') \<longrightarrow> \<not> isNewRoleEnabled acRoles"
    by (auto simp: isNewRoleEnabled_def find_None_iff[THEN iffD2] split: option.splits dest: find_Some_iff[THEN iffD1])
  from main legacy no_root show ?thesis by blast
qed

theorem mode_selection_counterexample:
  "\<not> (isNewRoleEnabled [\<lparr>role = ''root'', permissions = [''all'', ''Post-read'']\<rparr>] =
       (\<exists>d\<in>set [\<lparr>role = ''root'', permissions = [''all'', ''Post-read'']\<rparr>].
           role d = ''root'' \<and> permissions d = [''all'']))"
  by (simp add: isNewRoleEnabled_def)

theorem mode_selection_witness:
  "isNewRoleEnabled ex_definitions \<and>
   \<not> isNewRoleEnabled [\<lparr>role = ''student'', permissions = [''Post-read'']\<rparr>] \<and>
   getUserRoles_acRoles 5 ex_store alice ''Post'' None None None
       [\<lparr>role = ''student'', permissions = [''Post-read'']\<rparr>] (new_Auth False (Some alice)) =
     assign_rolePromise (loadRoles 5 ex_store alice []) (new_Auth False (Some alice))"
proof -
  have "ex_definitions = [] @ \<lparr>role = ''root'', permissions = [''all'']\<rparr> # tl ex_definitions \<and>
        (\<forall>ar\<in>set []. role ar \<noteq> ''root'') \<and>
        role \<lparr>role = ''root'', permissions = [''all'']\<rparr> = ''root'' \<and>
        permissions \<lparr>role = ''root'', permissions = [''all'']\<rparr> = ''all'' # []"
    by (simp add: ex_definitions_def)
  then have "\<exists>pre rootRole post rest.
          ex_definitions = pre @ rootRole # post \<and> (\<forall>ar\<in>set pre. role ar \<noteq> ''root'') \<and>
          role rootRole = ''root'' \<and> permissions rootRole = ''all'' # rest"
    by blast
  with mode_selection[of ex_definitions] have 1: "isNewRoleEnabled ex_definitions" by blast
  have "\<forall>ar\<in>set [\<lparr>role = ''student'', permissions = [''Post-read'']\<rparr>]. role ar \<noteq> ''root''"
    by simp
  with mode_selection[of "[\<lparr>role = ''student'', permissions = [''Post-read'']\<rparr>]" 5 ex_store alice
      "''Post''" None None None "new_Auth False (Some alice)"]
  show ?thesis using 1 by blast
qed


text \<open>
  C5 (space-pointer precedence), as the code has it. \<^verbatim>\<open>data.classRoom\<close> wins, then
  \<^verbatim>\<open>restQuery.classRoom\<close>. The three rules that start a chase are three assignments in
  a row, so the last one that applies wins: \<^verbatim>\<open>query.objectId\<close> with \<^verbatim>\<open>className\<close>
  first, then the pair \<^verbatim>\<open>(data.itemType, data.itemId)\<close>, then \<^verbatim>\<open>data.post\<close>. When no
  rule applies the result is nothing.

  The claim as stated starts the chase at \<^verbatim>\<open>data.post\<close> when \<^verbatim>\<open>data.post\<close> and
  \<^verbatim>\<open>query.objectId\<close> are both present. In the counterexample the request has the post
  \<^verbatim>\<open>p1\<close> (of the first space) in its data and the object id \<^verbatim>\<open>c1\<close> of a comment (of the
  second space) in its query: the code queries the comment and resolves to the second
  space.
\<close>

theorem space_pointer_precedence:
  "getSpacePointer fuel st className data query restQuery a =
     (case first_match [Option.bind data data_classRoom, Option.bind restQuery restQuery_classRoom] of
        Some classRoom \<Rightarrow> Some (Resolved (Some classRoom), a)
      | None \<Rightarrow>
          queryToSpace_from fuel st a
            (first_match [from_query className query None, from_item data None, from_post data None])) \<and>
   (Option.bind data data_classRoom = None \<and> Option.bind restQuery restQuery_classRoom = None \<and>
    from_query className query None = None \<and> from_item data None = None \<and>
    from_post data None = None \<longrightarrow>
      getSpacePointer fuel st className data query restQuery a = Some (Resolved None, a))"
  unfolding getSpacePointer_def last_assignment_wins
  by (simp add: queryToSpace_from_def split: option.splits)

theorem space_pointer_precedence_counterexample:
  "getSpacePointer 5 ex_store ''Comment'' (Some data_post_p1) (Some \<lparr>query_objectId = Some ''c1''\<rparr>) None
       (new_Auth False (Some alice)) =
     Some (Resolved (Some space2), issue (Query ''Comment'' (Where_objectId ''c1'')) (new_Auth False (Some alice))) \<and>
   queryToSpace 5 ex_store ''p1'' ''Post'' (new_Auth False (Some alice)) =
     Some (Resolved (Some space1), issue (Query ''Post'' (Where_objectId ''p1'')) (new_Auth False (Some alice))) \<and>
   getSpacePointer 5 ex_store ''Comment'' (Some data_post_p1) (Some \<lparr>query_objectId = Some ''c1''\<rparr>) None
       (new_Auth False (Some alice)) \<noteq>
     queryToSpace 5 ex_store ''p1'' ''Post'' (new_Auth False (Some alice))"
  by (simp add: getSpacePointer_def queryToSpace_from_def from_query_def from_item_def from_post_def
      data_post_p1_def ex_simps query_simps numeral_eq_Suc)

theorem space_pointer_precedence_witness:
  "getSpacePointer 5 ex_store ''Comment'' (Some data_post_p1) (Some \<lparr>query_objectId = Some ''c1''\<rparr>) None
       (new_Auth False (Some alice)) =
     queryToSpace 5 ex_store ''c1'' ''Comment'' (new_Auth False (Some alice)) \<and>
   getSpacePointer 5 ex_store ''Comment'' None None None (new_Auth False (Some alice)) =
     Some (Resolved None, new_Auth False (Some alice))"
  using space_pointer_precedence[of 5 ex_store "''Comment''" "Some data_post_p1"
          "Some \<lparr>query_objectId = Some ''c1''\<rparr>" None "new_Auth False (Some alice)"]
        space_pointer_precedence[of 5 ex_store "''Comment''" None None None "new_Auth False (Some alice)"]
  by (simp add: queryToSpace_from_def from_query_def from_item_def from_post_def data_post_p1_def)


text \<open>
  C8 (no standing in the space). In the custom mode, for a class with applicable definitions
  and a request whose space pointer resolved: when the query of \<^verbatim>\<open>UBClassRoomUser\<close> for
  the user and the space returns no row, the resolution fails with
  \<^verbatim>\<open>OPERATION_FORBIDDEN\<close>, and the message names the user id and the space id. Neither the
  class nor the kind of request matters.
\<close>

theorem no_standing_in_space:
  assumes "user a = Some u" "\<not> isMaster a" "\<not> fetchedRoles a" "rolePromise a = None"
      and "getAllCustomRoles st = Resolved acRoles" "isNewRoleEnabled acRoles"
      and "getClassRoles acRoles className \<noteq> []"
      and "getSpacePointer fuel st className data query restQuery
             (issue (Query ''UBRoleDefinition'' Where_all) a) = Some (Resolved (Some sp), a1)"
      and "queryByClassName (execute st ''UBClassRoomUser'' (Where_user_classRoom (user_id u) sp)
             (find_memberships st (user_id u) sp)) = Resolved []"
  shows "map_option fst (Auth_getUserRoles fuel st className data query restQuery a) =
         Some (Rejected (Parse_Error OPERATION_FORBIDDEN
           (''User '' @ user_id u @ '' is not allowed to access space '' @ ptr_objectId sp)))"
proof -
  have call: "Auth_getUserRoles fuel st className data query restQuery a =
        getUserRoles_spacePointer fuel st u className data query acRoles (Some sp) a1"
    using assms(1-6,8) by (rule custom_mode_call)
  show ?thesis
    unfolding call scoped_call_fst[OF assms(7)] loadCustomRoles_fst[OF assms(9)]
    by (simp add: not_allowed_space_def)
qed

theorem no_standing_in_space_witness:
  "map_option fst (Auth_getUserRoles 5 ex_store ''Post'' (Some (data_in space9)) None None
      (new_Auth False (Some alice))) =
   Some (Rejected (Parse_Error OPERATION_FORBIDDEN ''User u1 is not allowed to access space s9''))"
proof -
  have classRoles: "getClassRoles ex_definitions ''Post'' \<noteq> []"
    by (simp add: ex_classRoles)
  have space: "getSpacePointer 5 ex_store ''Post'' (Some (data_in space9)) None None
      (issue (Query ''UBRoleDefinition'' Where_all) (new_Auth False (Some alice))) =
      Some (Resolved (Some space9), issue (Query ''UBRoleDefinition'' Where_all) (new_Auth False (Some alice)))"
    by (simp add: getSpacePointer_def data_in_def)
  from no_standing_in_space[OF ex_new_Auth ex_custom_mode classRoles space ex_memberships(1)]
  show ?thesis by (simp add: alice_def space9_def)
qed

text \<open>
  C1 (create gating), as the code has it. In the custom mode, for a class with applicable
  definitions, a resolved space and at least one membership row of the user in it: when
  neither the data nor the query carries an object id and no scoped token comes from a
  \<^verbatim>\<open>create\<close> permission, the resolution fails with \<^verbatim>\<open>OPERATION_FORBIDDEN\<close>, and the message
  names the user and the class. When the data or the query carries an object id, the check is
  not made: the resolution gives the scoped tokens, followed by the global ones.

  The claim as stated does not ask for a membership row. In the counterexample the user has
  none in the space of the request: the request is a create request and there is no scoped
  token at all, but the membership check comes first, and the error names the user and the
  space, not the class.
\<close>

theorem create_gating:
  assumes "user a = Some u" "\<not> isMaster a" "\<not> fetchedRoles a" "rolePromise a = None"
      and "getAllCustomRoles st = Resolved acRoles" "isNewRoleEnabled acRoles"
      and "getClassRoles acRoles className \<noteq> []"
      and "getSpacePointer fuel st className data query restQuery
             (issue (Query ''UBRoleDefinition'' Where_all) a) = Some (Resolved (Some sp), a1)"
      and "queryByClassName (execute st ''UBClassRoomUser'' (Where_user_classRoom (user_id u) sp)
             (find_memberships st (user_id u) sp)) = Resolved results"
      and "results \<noteq> []"
  shows "(\<not> truthy (Option.bind data data_objectId) \<and> \<not> truthy (Option.bind query query_objectId) \<and>
          (\<forall>t\<in>set (flattenUserClassRoles (getClassRoles acRoles className) className results).
              sr_isCreate t \<noteq> Some True) \<longrightarrow>
            map_option fst (Auth_getUserRoles fuel st className data query restQuery a) =
            Some (Rejected (Parse_Error OPERATION_FORBIDDEN
              (''User '' @ user_id u @ '' is not allowed to create new object in '' @ className)))) \<and>
         (truthy (Option.bind data data_objectId) \<or> truthy (Option.bind query query_objectId) \<longrightarrow>
            map_option fst (Auth_getUserRoles fuel st className data query restQuery a) =
            Some (Resolved
              (filterDuplication
                 (map sr_role (flattenUserClassRoles (getClassRoles acRoles className) className results)) @
               transformUserRoles (getUserRoles acRoles (user_userRoles u) (user_id u)))))"
proof -
  have call: "Auth_getUserRoles fuel st className data query restQuery a =
        getUserRoles_spacePointer fuel st u className data query acRoles (Some sp) a1"
    using assms(1-6,8) by (rule custom_mode_call)
  show ?thesis
    unfolding call scoped_call_fst[OF assms(7)] loadCustomRoles_fst[OF assms(9)]
    using assms(10)
    by (auto simp: not_allowed_create_def canCreate_iff isCreateRequest_def)
qed


theorem create_gating_counterexample:
  "isNewRoleEnabled ex_definitions \<and>
   getClassRoles ex_definitions ''Post'' \<noteq> [] \<and>
   getSpacePointer 5 ex_store ''Post'' (Some (data_in space9)) None None
       (issue (Query ''UBRoleDefinition'' Where_all) (new_Auth False (Some alice))) =
     Some (Resolved (Some space9), issue (Query ''UBRoleDefinition'' Where_all) (new_Auth False (Some alice))) \<and>
   isCreateRequest (Some (data_in space9)) None \<and>
   flattenUserClassRoles (getClassRoles ex_definitions ''Post'') ''Post''
       (find_memberships ex_store ''u1'' space9) = [] \<and>
   map_option fst (Auth_getUserRoles 5 ex_store ''Post'' (Some (data_in space9)) None None
       (new_Auth False (Some alice))) =
     Some (Rejected (Parse_Error OPERATION_FORBIDDEN ''User u1 is not allowed to access space s9'')) \<and>
   map_option fst (Auth_getUserRoles 5 ex_store ''Post'' (Some (data_in space9)) None None
       (new_Auth False (Some alice))) \<noteq>
     Some (Rejected (Parse_Error OPERATION_FORBIDDEN ''User u1 is not allowed to create new object in Post''))"
  by (simp add: call_simps helper_simps ex_simps query_simps)

theorem create_gating_witness:
  "map_option fst (Auth_getUserRoles 5 ex_store ''Post'' (Some (data_in space1)) None None
      (new_Auth False (Some alice))) =
   Some (Rejected (Parse_Error OPERATION_FORBIDDEN ''User u1 is not allowed to create new object in Post'')) \<and>
   map_option fst (Auth_getUserRoles 5 ex_store ''Post''
      (Some ((data_in space1)\<lparr>data_objectId := Some ''p1''\<rparr>)) None None
      (new_Auth False (Some alice))) =
   Some (Resolved [''role:Post-s1-read''])"
proof -
  let ?a = "new_Auth False (Some alice)"
  let ?a1 = "issue (Query ''UBRoleDefinition'' Where_all) ?a"
  have classRoles: "getClassRoles ex_definitions ''Post'' \<noteq> []"
    by (simp add: ex_classRoles)
  have found: "[\<lparr>m_user = ''u1'', m_classRoom = space1, m_role = ''student''\<rparr>] \<noteq> []"
    by simp
  have global: "transformUserRoles (getUserRoles ex_definitions (user_userRoles alice) (user_id alice)) = []"
    by (simp add: getUserRoles_def alice_def transformUserRoles_def filterDuplication_def)
  have space: "getSpacePointer 5 ex_store ''Post'' (Some (data_in space1)) None None ?a1 =
      Some (Resolved (Some space1), ?a1)"
    by (simp add: getSpacePointer_def data_in_def)
  have space': "getSpacePointer 5 ex_store ''Post''
      (Some ((data_in space1)\<lparr>data_objectId := Some ''p1''\<rparr>)) None None ?a1 =
      Some (Resolved (Some space1), ?a1)"
    by (simp add: getSpacePointer_def data_in_def)
  from create_gating[OF ex_new_Auth ex_custom_mode classRoles space ex_memberships(2) found]
  have "map_option fst (Auth_getUserRoles 5 ex_store ''Post'' (Some (data_in space1)) None None ?a) =
      Some (Rejected (Parse_Error OPERATION_FORBIDDEN ''User u1 is not allowed to create new object in Post''))"
    by (simp add: ex_student_tokens truthy_def data_in_def alice_def)
  moreover
  from create_gating[OF ex_new_Auth ex_custom_mode classRoles space' ex_memberships(2) found]
  have "map_option fst (Auth_getUserRoles 5 ex_store ''Post''
      (Some ((data_in space1)\<lparr>data_objectId := Some ''p1''\<rparr>)) None None ?a) =
      Some (Resolved [''role:Post-s1-read''])"
    by (simp add: ex_student_tokens truthy_def data_in_def global filterDuplication_def)
  ultimately show ?thesis by simp
qed


text \<open>
  C7 (token mapping in the custom mode), as the code has it. The class is \<^verbatim>\<open>Post\<close>, and the
  membership query gives one row. When the row grants \<^verbatim>\<open>student\<close>, the matching definition
  has the permission \<^verbatim>\<open>Post-read\<close> and the request carries an object id, the resolution
  gives the one scoped token \<^verbatim>\<open>role:Post-<spaceId>-read\<close>, followed by the global tokens.
  When the row grants \<^verbatim>\<open>instructor\<close> and the matching definition has the permissions
  \<^verbatim>\<open>Post-create\<close> and \<^verbatim>\<open>Post-update\<close>, the resolution gives
  \<^verbatim>\<open>role:Post-<spaceId>-write\<close> once, followed by the global tokens, for every request.

  The claim as stated gives the student the read token for every request. In the
  counterexample the student's request carries no object id, so it counts as a create
  request, and the resolution fails with \<^verbatim>\<open>OPERATION_FORBIDDEN\<close> instead.
\<close>

theorem token_mapping:
  assumes "user a = Some u" "\<not> isMaster a" "\<not> fetchedRoles a" "rolePromise a = None"
      and "getAllCustomRoles st = Resolved acRoles" "isNewRoleEnabled acRoles"
      and "getSpacePointer fuel st ''Post'' data query restQuery
             (issue (Query ''UBRoleDefinition'' Where_all) a) = Some (Resolved (Some sp), a1)"
      and "queryByClassName (execute st ''UBClassRoomUser'' (Where_user_classRoom (user_id u) sp)
             (find_memberships st (user_id u) sp)) = Resolved [m]"
      and "find (\<lambda>cr. role cr = m_role m) (getClassRoles acRoles ''Post'') = Some d"
  shows "(m_role m = ''student'' \<and> permissions d = [''Post-read''] \<and>
          (truthy (Option.bind data data_objectId) \<or> truthy (Option.bind query query_objectId)) \<longrightarrow>
            map_option fst (Auth_getUserRoles fuel st ''Post'' data query restQuery a) =
            Some (Resolved ((''role:Post-'' @ ptr_objectId (m_classRoom m) @ ''-read'') #
                    transformUserRoles (getUserRoles acRoles (user_userRoles u) (user_id u))))) \<and>
         (m_role m = ''instructor'' \<and> permissions d = [''Post-create'', ''Post-update''] \<longrightarrow>
            map_option fst (Auth_getUserRoles fuel st ''Post'' data query restQuery a) =
            Some (Resolved ((''role:Post-'' @ ptr_objectId (m_classRoom m) @ ''-write'') #
                    transformUserRoles (getUserRoles acRoles (user_userRoles u) (user_id u)))))"
proof -
  have call: "Auth_getUserRoles fuel st ''Post'' data query restQuery a =
        getUserRoles_spacePointer fuel st u ''Post'' data query acRoles (Some sp) a1"
    using assms(1-7) by (rule custom_mode_call)
  from assms(9) have classRoles: "getClassRoles acRoles ''Post'' \<noteq> []"
    by auto
  have outcome: "map_option fst (Auth_getUserRoles fuel st ''Post'' data query restQuery a) =
     Some (if isCreateRequest data query \<and>
              \<not> canCreate (flattenUserClassRoles (getClassRoles acRoles ''Post'') ''Post'' [m])
           then Rejected (not_allowed_create u ''Post'')
           else Resolved (filterDuplication
                  (map sr_role (flattenUserClassRoles (getClassRoles acRoles ''Post'') ''Post'' [m])) @
                transformUserRoles (getUserRoles acRoles (user_userRoles u) (user_id u))))"
    unfolding call scoped_call_fst[OF classRoles] loadCustomRoles_fst[OF assms(8)] by simp
  have student: "flattenUserClassRoles (getClassRoles acRoles ''Post'') ''Post'' [m] =
      [\<lparr>sr_role = ''role:Post-'' @ ptr_objectId (m_classRoom m) @ ''-read'', sr_isCreate = Some False\<rparr>]"
    if "permissions d = [''Post-read'']"
    using that assms(9)
    by (simp add: flattenUserClassRoles_def flattenArray_def removeEmptyValue_def List.map_filter_def
        transfromClassRoles_def transfromClassRole_def destructure2_def roleMap_def template_def)
  have instructor: "flattenUserClassRoles (getClassRoles acRoles ''Post'') ''Post'' [m] =
      [\<lparr>sr_role = ''role:Post-'' @ ptr_objectId (m_classRoom m) @ ''-write'', sr_isCreate = Some True\<rparr>,
       \<lparr>sr_role = ''role:Post-'' @ ptr_objectId (m_classRoom m) @ ''-write'', sr_isCreate = Some False\<rparr>]"
    if "permissions d = [''Post-create'', ''Post-update'']"
    using that assms(9)
    by (simp add: flattenUserClassRoles_def flattenArray_def removeEmptyValue_def List.map_filter_def
        transfromClassRoles_def transfromClassRole_def destructure2_def roleMap_def template_def)
  have dedupe: "filterDuplication [x, x] = [x]" for x :: string
    by (simp add: filterDuplication_def)
  have single: "filterDuplication [x] = [x]" for x :: string
    by (simp add: filterDuplication_def)
  show ?thesis
    using outcome student instructor
    by (auto simp: isCreateRequest_def canCreate_def dedupe single)
qed

theorem token_mapping_counterexample:
  "map_option fst (Auth_getUserRoles 5 ex_store ''Post'' (Some (data_in space1)) None None
      (new_Auth False (Some alice))) =
     Some (Rejected (Parse_Error OPERATION_FORBIDDEN ''User u1 is not allowed to create new object in Post'')) \<and>
   \<not> (\<exists>tokens.
        map_option fst (Auth_getUserRoles 5 ex_store ''Post'' (Some (data_in space1)) None None
          (new_Auth False (Some alice))) = Some (Resolved tokens) \<and>
        ''role:Post-s1-read'' \<in> set tokens)"
proof -
  have "map_option fst (Auth_getUserRoles 5 ex_store ''Post'' (Some (data_in space1)) None None
      (new_Auth False (Some alice))) =
     Some (Rejected (Parse_Error OPERATION_FORBIDDEN ''User u1 is not allowed to create new object in Post''))"
    by (simp add: call_simps helper_simps ex_simps query_simps)
  then show ?thesis by auto
qed

theorem token_mapping_witness:
  "map_option fst (Auth_getUserRoles 5 ex_store ''Post''
      (Some ((data_in space1)\<lparr>data_objectId := Some ''p1''\<rparr>)) None None
      (new_Auth False (Some alice))) =
     Some (Resolved [''role:Post-s1-read'']) \<and>
   map_option fst (Auth_getUserRoles 5 ex_store ''Post'' (Some (data_in space2)) None None
      (new_Auth False (Some alice))) =
     Some (Resolved [''role:Post-s2-write''])"
proof -
  let ?a = "new_Auth False (Some alice)"
  let ?a1 = "issue (Query ''UBRoleDefinition'' Where_all) ?a"
  have global: "transformUserRoles (getUserRoles ex_definitions (user_userRoles alice) (user_id alice)) = []"
    by (simp add: getUserRoles_def alice_def transformUserRoles_def filterDuplication_def)
  have space: "getSpacePointer 5 ex_store ''Post''
      (Some ((data_in space1)\<lparr>data_objectId := Some ''p1''\<rparr>)) None None ?a1 =
      Some (Resolved (Some space1), ?a1)"
    by (simp add: getSpacePointer_def data_in_def)
  have space': "getSpacePointer 5 ex_store ''Post'' (Some (data_in space2)) None None ?a1 =
      Some (Resolved (Some space2), ?a1)"
    by (simp add: getSpacePointer_def data_in_def)
  have student: "find (\<lambda>cr. role cr = m_role \<lparr>m_user = ''u1'', m_classRoom = space1, m_role = ''student''\<rparr>)
      (getClassRoles ex_definitions ''Post'') = Some \<lparr>role = ''student'', permissions = [''Post-read'']\<rparr>"
    by (simp add: ex_classRoles)
  have instructor: "find (\<lambda>cr. role cr = m_role \<lparr>m_user = ''u1'', m_classRoom = space2, m_role = ''instructor''\<rparr>)
      (getClassRoles ex_definitions ''Post'') =
      Some \<lparr>role = ''instructor'', permissions = [''Post-create'', ''Post-update'']\<rparr>"
    by (simp add: ex_classRoles)
  from token_mapping[OF ex_new_Auth ex_custom_mode space ex_memberships(2) student]
  have "map_option fst (Auth_getUserRoles 5 ex_store ''Post''
      (Some ((data_in space1)\<lparr>data_objectId := Some ''p1''\<rparr>)) None None ?a) =
     Some (Resolved [''role:Post-s1-read''])"
    by (simp add: global truthy_def data_in_def space1_def)
  moreover
  from token_mapping[OF ex_new_Auth ex_custom_mode space' ex_memberships(3) instructor]
  have "map_option fst (Auth_getUserRoles 5 ex_store ''Post'' (Some (data_in space2)) None None ?a) =
     Some (Resolved [''role:Post-s2-write''])"
    by (simp add: global space2_def)
  ultimately show ?thesis by simp
qed






text \<open>
  C9 (memoization), at the failing input. Two calls are made on a new principal, the second
  before any callback of the first has run. \<^verbatim>\<open>rolePromise\<close> is assigned only inside the
  callbacks, so the second call passes the three guards as the first did and starts a
  resolution of its own: the role definitions and the memberships are each queried twice.
  (Once a resolution has succeeded, a later call returns the same tokens and changes nothing:
  this is \<open>memoized_after_success\<close>.)
\<close>

theorem overlapping_calls_resolve_twice:
  "getUserRoles_enter (new_Auth False (Some alice)) =
     (Started alice, issue (Query ''UBRoleDefinition'' Where_all) (new_Auth False (Some alice))) \<and>
   fst (getUserRoles_enter (issue (Query ''UBRoleDefinition'' Where_all) (new_Auth False (Some alice)))) =
     Started alice \<and>
   map_option (\<lambda>(p1, p2, a). (p1, p2, io_log a))
     (getUserRoles_overlapping 5 ex_store ''Post'' (Some (data_in space2)) None None
        (new_Auth False (Some alice))) =
     Some (Resolved [''role:Post-s2-write''], Resolved [''role:Post-s2-write''],
           [Query ''UBRoleDefinition'' Where_all,
            Query ''UBRoleDefinition'' Where_all,
            Query ''UBClassRoomUser'' (Where_user_classRoom ''u1'' space2),
            Query ''UBClassRoomUser'' (Where_user_classRoom ''u1'' space2)])"
  by (simp add: getUserRoles_overlapping_def call_simps helper_simps ex_simps query_simps Let_def)

text \<open>
  C3 (failures of the data store), at the failing input. The data store rejects the query of
  the role definitions: the promise of \<^verbatim>\<open>getUserRoles\<close> is never settled, so the caller
  never sees the failure. When the store rejects the membership query instead, the promise is
  never settled either, and \<^verbatim>\<open>rolePromise\<close> keeps the promise that never settles.
\<close>

theorem store_failure_never_settles:
  "Auth_getUserRoles 5 (ex_store\<lparr>rejects := failing_on ''UBRoleDefinition''\<rparr>) ''Post''
      (Some (data_in space1)) None None (new_Auth False (Some alice)) =
     Some (Pending, issue (Query ''UBRoleDefinition'' Where_all) (new_Auth False (Some alice))) \<and>
   map_option (\<lambda>(p, a). (p, rolePromise a, io_log a))
     (Auth_getUserRoles 5 (ex_store\<lparr>rejects := failing_on ''UBClassRoomUser''\<rparr>) ''Post''
        (Some (data_in space1)) None None (new_Auth False (Some alice))) =
     Some (Pending, Some Pending,
           [Query ''UBRoleDefinition'' Where_all,
            Query ''UBClassRoomUser'' (Where_user_classRoom ''u1'' space1)])"
  by (simp add: call_simps helper_simps ex_simps query_simps failing_on_def)


text \<open>
  C6 (the walk over the role graph and cycles), at the failing input. \<^verbatim>\<open>queriedRoles\<close> is a
  plain object, and the assignment \<^verbatim>\<open>queriedRoles['__proto__'] = true\<close> marks nothing. A role
  of the id \<^verbatim>\<open>__proto__\<close> that is a member of itself is asked for in every round: the walk
  has no end, whatever the fuel, and neither has the resolution of a user in that role. When
  the role and another one are members of each other, the walk ends, but it asks for
  \<^verbatim>\<open>__proto__\<close> in two rounds. (On every store with no role of that id the claim holds, cycles
  or not: this is \<open>walk_cycle_safe\<close>.)
\<close>

theorem walk_never_ends_on_proto:
  "(\<forall>fuel. getAllRolesNamesForRoleIds fuel proto_store [''__proto__''] [''p''] {}
       (new_Auth False (Some alice)) = None) \<and>
   (\<forall>fuel. Auth_getUserRoles fuel proto_store ''Post'' None None None
       (new_Auth False (Some alice)) = None) \<and>
   getAllRolesNamesForRoleIds 5 proto_pair_store [''__proto__''] [''p''] {} (new_Auth False (Some alice)) =
     Some (Resolved [''p'', ''b''],
           (new_Auth False (Some alice))\<lparr>io_log :=
              [Query ''_Role'' (Where_roles ''__proto__''), Query ''_Role'' (Where_roles ''B''),
               Query ''_Role'' (Where_roles ''__proto__'')]\<rparr>)"
proof -
  have walk: "getAllRolesNamesForRoleIds fuel proto_store [''__proto__''] names {} a = None"
    for fuel names a
    by (induction fuel arbitrary: names a)
       (simp_all add: mark_def proto_store_def no_failure_def query_simps)
  have call: "Auth_getUserRoles fuel proto_store ''Post'' None None None
      (new_Auth False (Some alice)) = None" for fuel
    by (simp add: call_simps loadRoles_def isNewRoleEnabled_def walk new_Auth_def alice_def
        execute_def find_roles_def queryByClassName_def issue_def
        proto_store_def[THEN arg_cong, of Role] proto_store_def[THEN arg_cong, of rejects]
        proto_store_def[THEN arg_cong, of UBRoleDefinition] no_failure_def)
  have pair: "getAllRolesNamesForRoleIds 5 proto_pair_store [''__proto__''] [''p''] {}
      (new_Auth False (Some alice)) =
     Some (Resolved [''p'', ''b''],
           (new_Auth False (Some alice))\<lparr>io_log :=
              [Query ''_Role'' (Where_roles ''__proto__''), Query ''_Role'' (Where_roles ''B''),
               Query ''_Role'' (Where_roles ''__proto__'')]\<rparr>)"
    by (simp add: numeral_eq_Suc mark_def Set_spread_def proto_pair_store_def no_failure_def
        query_simps new_Auth_def Let_def)
  from walk call pair show ?thesis by blast
qed

end
